theory Spec2Isabelle
  imports Complex_Main
begin

section \<open>Data model of the backtest engine (src/strategies/backtest.ts)\<close>

text \<open>
  A JavaScript \<open>number\<close> of the portfolio ledger is modelled as a \<open>real\<close>: arithmetic is
  exact, with no rounding and no overflow. A \<open>Date\<close> is its \<open>getTime()\<close> value, an integer
  count of milliseconds since the epoch; only valid dates are modelled.
  The ledger divides by closing prices and by \<open>FEAR_THRESHOLD\<close>; the model is the code
  where these divisors are not zero (in HOL \<open>x / 0 = 0\<close>, in JavaScript it is an infinity
  or \<open>NaN\<close>). The closing metrics of a run divide by quantities that are zero for
  well-formed input (the year fraction, the invested total), so they are modelled on
  \<open>jsnum\<close>, which adds the IEEE values \<open>Infinity\<close>, \<open>-Infinity\<close> and \<open>NaN\<close> to the reals.
  The arrays hold defined elements, so the guards of the code against an undefined
  element (\<open>if (!item) continue\<close> and the like) never fire and are left out.
\<close>

type_synonym Date = int

record MarketDataPoint =
  md_date :: Date
  md_close :: real

record FearGreedDataPoint =
  fg_date :: Date
  fg_value :: real
  fg_classification :: string

datatype TradeType = buy | sell

datatype Variant = Default | ExtremeOnly | ExtremeFearHold | Combined

text \<open>
  The \<open>reason\<close> string of a trade is assembled from formatted numbers; the model keeps which
  of the five code paths wrote it and the flags that choose its optional suffixes.
\<close>

datatype Reason =
    WeeklyContributionInvested bool bool
  | TakingProfit
  | AccumulatedCashInvested
  | FearGreedIndexBuy bool
  | FinalCashAllocation

record Trade =
  t_date :: Date
  t_type :: TradeType
  t_price :: real
  t_shares :: real
  t_value :: real
  t_reason :: Reason

text \<open>
  \<open>FEAR_THRESHOLD\<close> and \<open>GREED_THRESHOLD\<close> are read once from the process environment
  (with \<open>parseInt\<close>), the defaults being 40 and 85; the other constants are fixed.
\<close>

record Env =
  FEAR_THRESHOLD :: real
  GREED_THRESHOLD :: real

definition DEFAULT_FEAR_THRESHOLD :: real where "DEFAULT_FEAR_THRESHOLD = 40"
definition DEFAULT_GREED_THRESHOLD :: real where "DEFAULT_GREED_THRESHOLD = 85"
definition EXTREME_FEAR_THRESHOLD :: real where "EXTREME_FEAR_THRESHOLD = 20"
definition EXTREME_GREED_THRESHOLD :: real where "EXTREME_GREED_THRESHOLD = 80"
definition ALLOCATION_PERCENTAGE :: real where "ALLOCATION_PERCENTAGE = 4 / 10"
definition SELL_PERCENTAGE :: real where "SELL_PERCENTAGE = 3 / 10"
definition MIN_PROFIT_PERCENT :: real where "MIN_PROFIT_PERCENT = 1 / 10"
definition TREND_MA_PERIOD :: int where "TREND_MA_PERIOD = 50"
definition DEFAULT_WEEKLY_CONTRIBUTION :: real where "DEFAULT_WEEKLY_CONTRIBUTION = 500"
definition DAYS_IN_WEEK :: real where "DAYS_IN_WEEK = 7"

definition default_env :: Env where
  "default_env = \<lparr>FEAR_THRESHOLD = DEFAULT_FEAR_THRESHOLD, GREED_THRESHOLD = DEFAULT_GREED_THRESHOLD\<rparr>"

definition MS_PER_DAY :: int where "MS_PER_DAY = 1000 * 60 * 60 * 24"

text \<open>
  \<open>d.toISOString().split('T')[0]\<close> is the UTC calendar date of \<open>d\<close>. Two valid dates have
  the same such string exactly when they fall in the same UTC day, so the string is
  modelled by the day number.
\<close>

definition isoDate :: "Date \<Rightarrow> int" where
  "isoDate d = d div MS_PER_DAY"

section \<open>Indicator index: findClosestFearGreedData\<close>

text \<open>
  The scan keeps \<open>closestIndex\<close> (initially \<open>-1\<close>) and \<open>minDiff\<close> (initially
  \<open>Infinity\<close>, here \<open>None\<close>).
\<close>

definition closest_step :: "Date \<Rightarrow> FearGreedDataPoint list \<Rightarrow> int \<times> int option \<Rightarrow> nat \<Rightarrow> int \<times> int option" where
  "closest_step timestamp fearGreedData st i =
     (let diff = \<bar>fg_date (fearGreedData ! i) - timestamp\<bar>
      in (case snd st of
            None \<Rightarrow> (int i, Some diff)
          | Some minDiff \<Rightarrow> if diff < minDiff then (int i, Some diff) else st))"

definition closest_scan :: "Date \<Rightarrow> FearGreedDataPoint list \<Rightarrow> int \<times> int option" where
  "closest_scan timestamp fearGreedData =
     foldl (closest_step timestamp fearGreedData) (- 1, None) [0..<length fearGreedData]"

definition findClosestFearGreedData :: "Date \<Rightarrow> FearGreedDataPoint list \<Rightarrow> FearGreedDataPoint option" where
  "findClosestFearGreedData date fearGreedData =
     (if length fearGreedData = 0 then None
      else (case List.find (\<lambda>item. isoDate (fg_date item) = isoDate date) fearGreedData of
              Some exactMatch \<Rightarrow> Some exactMatch
            | None \<Rightarrow>
                (let closestIndex = fst (closest_scan date fearGreedData)
                 in if closestIndex \<ge> 0 \<and> nat closestIndex < length fearGreedData
                    then Some (fearGreedData ! nat closestIndex)
                    else None)))"

section \<open>Drawdown tracker: calculateMaxDrawdown\<close>

text \<open>The loop state is the pair \<open>(maxDrawdown, peak)\<close>.\<close>

definition drawdown_step :: "real \<times> real \<Rightarrow> real \<Rightarrow> real \<times> real" where
  "drawdown_step st v =
     (let maxDrawdown = fst st; peak = snd st
      in if v > peak then (maxDrawdown, v)
         else if peak > 0 then (max maxDrawdown ((peak - v) / peak), peak)
         else (maxDrawdown, peak))"

definition calculateMaxDrawdown :: "real list \<Rightarrow> real" where
  "calculateMaxDrawdown equityCurve =
     (case equityCurve of
        [] \<Rightarrow> 0
      | firstValue # _ \<Rightarrow> fst (foldl drawdown_step (0, firstValue) equityCurve))"

section \<open>Trend detector\<close>

definition ma_step :: "MarketDataPoint list \<Rightarrow> real \<times> nat \<Rightarrow> int \<Rightarrow> real \<times> nat" where
  "ma_step data st i =
     (if 0 \<le> i \<and> nat i < length data
      then (fst st + md_close (data ! nat i), snd st + 1)
      else st)"

definition calculateMovingAverage :: "MarketDataPoint list \<Rightarrow> int \<Rightarrow> int \<Rightarrow> real option" where
  "calculateMovingAverage data periods endIndex =
     (if endIndex < periods - 1 \<or> periods \<le> 0 then None
      else (let r = foldl (ma_step data) (0, 0) [max 0 (endIndex - periods + 1)..endIndex]
            in if snd r > 0 then Some (fst r / real (snd r)) else None))"

definition isInDowntrend :: "MarketDataPoint list \<Rightarrow> nat \<Rightarrow> bool" where
  "isInDowntrend data currentIndex =
     (if int currentIndex < TREND_MA_PERIOD then False
      else (case calculateMovingAverage data TREND_MA_PERIOD (int currentIndex) of
              None \<Rightarrow> False
            | Some ma \<Rightarrow>
                if ma = 0 then False
                else if \<not> currentIndex < length data then False
                else (let currentPrice = md_close (data ! currentIndex)
                      in if currentPrice = 0 then False else currentPrice < ma)))"

section \<open>Cooldown policy: determineCooldownPeriod\<close>

definition dateDiffs :: "MarketDataPoint list \<Rightarrow> real list" where
  "dateDiffs marketData =
     map (\<lambda>i. real_of_int (md_date (marketData ! i) - md_date (marketData ! (i - 1)))
               / real_of_int MS_PER_DAY)
         [1..<min 10 (length marketData)]"

definition determineCooldownPeriod :: "MarketDataPoint list \<Rightarrow> nat" where
  "determineCooldownPeriod marketData =
     (if length marketData < 2 then 20
      else (let avgDaysBetweenPoints = sum_list (dateDiffs marketData) / real (length (dateDiffs marketData))
            in if avgDaysBetweenPoints > 20 then 1
               else if avgDaysBetweenPoints > 5 then 3
               else 15))"

section \<open>Decision engine\<close>

definition shouldInvestWeeklyAmount :: "Env \<Rightarrow> real option \<Rightarrow> bool \<Rightarrow> Variant \<Rightarrow> bool" where
  "shouldInvestWeeklyAmount env fearGreedValue inDowntrend strategyVariant =
     (case fearGreedValue of
        None \<Rightarrow> False
      | Some v \<Rightarrow>
          if strategyVariant = Default \<and> v \<le> FEAR_THRESHOLD env then True
          else if strategyVariant = ExtremeOnly \<and> v \<le> EXTREME_FEAR_THRESHOLD then True
          else if strategyVariant = ExtremeFearHold \<and> v \<le> EXTREME_FEAR_THRESHOLD then True
          else if strategyVariant = Combined \<and> (v \<le> FEAR_THRESHOLD env \<or> v \<le> EXTREME_FEAR_THRESHOLD) then True
          else if inDowntrend \<and> v > EXTREME_FEAR_THRESHOLD then False
          else False)"

definition shouldInvestDouble :: "real option \<Rightarrow> bool" where
  "shouldInvestDouble fearGreedValue =
     (case fearGreedValue of None \<Rightarrow> False | Some v \<Rightarrow> v \<le> EXTREME_FEAR_THRESHOLD)"

section \<open>Simulation loop and portfolio ledger: runBacktest\<close>

record BacktestParams =
  marketData :: "MarketDataPoint list"
  fearGreedData :: "FearGreedDataPoint list"
  symbol :: string
  initialCapital :: real
  strategyVariant :: "Variant option"
  weeklyContribution :: "real option"
  useLumpSum :: "bool option"

text \<open>The three optional parameters with the defaults of the destructuring.\<close>

definition variant_of :: "BacktestParams \<Rightarrow> Variant" where
  "variant_of params = (case strategyVariant params of None \<Rightarrow> Default | Some v \<Rightarrow> v)"

definition contribution_of :: "BacktestParams \<Rightarrow> real" where
  "contribution_of params =
     (case weeklyContribution params of None \<Rightarrow> DEFAULT_WEEKLY_CONTRIBUTION | Some w \<Rightarrow> w)"

definition lump_of :: "BacktestParams \<Rightarrow> bool" where
  "lump_of params = (case useLumpSum params of None \<Rightarrow> False | Some b \<Rightarrow> b)"

text \<open>
  The counters of \<open>debugInfo\<close> that record capital movements and executed trades; the
  remaining ones count why a day produced no trade and influence nothing.
\<close>

record DebugInfo =
  executedBuys :: nat
  executedSells :: nat
  weeklyContributionsSkipped :: nat
  weeklyContributionsInvested :: nat
  doubleInvestments :: nat
  cashAccumulated :: real
  accumulatedCashInvested :: real

datatype jsnum = Fin real | PosInf | NegInf | NaN

record StrategyResult =
  res_symbol :: string
  strategyName :: string
  trades :: "Trade list"
  finalValue :: real
  totalReturn :: jsnum
  annualizedReturn :: jsnum
  maxDrawdown :: real
  buyAndHoldValue :: real
  buyAndHoldReturn :: jsnum
  skippedContributions :: nat
  totalContributions :: nat
  totalInvested :: real
  debugInfo :: DebugInfo

text \<open>The local variables of \<open>runBacktest\<close> that the day loop mutates.\<close>

record Ledger =
  l_trades :: "Trade list"
  cash :: real
  shares :: real
  equityCurve :: "real list"
  lastBuyDate :: "Date option"
  lastBuyPrice :: "real option"
  lastSellDate :: "Date option"
  l_totalInvested :: real
  l_skippedContributions :: nat
  l_totalContributions :: nat
  accumulatedCash :: real
  buyAndHoldCash :: real
  buyAndHoldShares :: real
  lastContributionDate :: Date
  l_debugInfo :: DebugInfo

text \<open>
  The two errors \<open>runBacktest\<close> throws (its promise rejects), with the symbol of the
  message. The second one is thrown for an undefined first or last element, which an
  array of defined elements never has.
\<close>

datatype Error = NoMarketData string | InvalidMarketData string

definition initial_debugInfo :: DebugInfo where
  "initial_debugInfo =
     \<lparr>executedBuys = 0, executedSells = 0, weeklyContributionsSkipped = 0,
      weeklyContributionsInvested = 0, doubleInvestments = 0, cashAccumulated = 0,
      accumulatedCashInvested = 0\<rparr>"

definition initial_ledger :: "BacktestParams \<Rightarrow> MarketDataPoint \<Rightarrow> Ledger" where
  "initial_ledger params firstDayData =
     \<lparr>l_trades = [],
      cash = (if lump_of params then initialCapital params else 0),
      shares = 0,
      equityCurve = [if lump_of params then initialCapital params else 0],
      lastBuyDate = None,
      lastBuyPrice = None,
      lastSellDate = None,
      l_totalInvested = (if lump_of params then initialCapital params else 0),
      l_skippedContributions = 0,
      l_totalContributions = 0,
      accumulatedCash = 0,
      buyAndHoldCash = (if lump_of params then initialCapital params else 0),
      buyAndHoldShares = (if lump_of params then initialCapital params / md_close firstDayData else 0),
      lastContributionDate = md_date firstDayData,
      l_debugInfo = initial_debugInfo\<rparr>"

subsection \<open>Step (a): the contribution scheduler\<close>

text \<open>Lines 444-479: buy shares with all the cash right after a weekly contribution.\<close>

definition weekly_buy :: "MarketDataPoint \<Rightarrow> bool \<Rightarrow> bool \<Rightarrow> Ledger \<Rightarrow> Ledger" where
  "weekly_buy currentDay doubleInvestment withAccumulated st =
     (if cash st > 0 then
        (let sharesToBuy = cash st / md_close currentDay
         in if sharesToBuy > 0 then
              (let cost = sharesToBuy * md_close currentDay
               in st\<lparr>shares := shares st + sharesToBuy,
                     cash := cash st - cost,
                     lastBuyDate := Some (md_date currentDay),
                     lastBuyPrice := Some (md_close currentDay),
                     l_debugInfo := (l_debugInfo st)\<lparr>executedBuys := executedBuys (l_debugInfo st) + 1\<rparr>,
                     l_trades := l_trades st @
                       [\<lparr>t_date = md_date currentDay, t_type = buy, t_price = md_close currentDay,
                         t_shares = sharesToBuy, t_value = cost,
                         t_reason = WeeklyContributionInvested doubleInvestment withAccumulated\<rparr>]\<rparr>)
            else st)
      else st)"

text \<open>
  Lines 419-437: the amount to deploy, doubled in extreme fear, plus the accumulated cash
  when today's sentiment is extreme fear and there is some.
\<close>

definition folds_accumulated :: "FearGreedDataPoint option \<Rightarrow> Ledger \<Rightarrow> bool" where
  "folds_accumulated fearGreedToday st =
     (case fearGreedToday of
        None \<Rightarrow> False
      | Some fg \<Rightarrow> fg_value fg \<le> EXTREME_FEAR_THRESHOLD \<and> accumulatedCash st > 0)"

definition amountToInvest :: "BacktestParams \<Rightarrow> FearGreedDataPoint option \<Rightarrow> Ledger \<Rightarrow> real" where
  "amountToInvest params fearGreedToday st =
     (let doubleInvestment = shouldInvestDouble (map_option fg_value fearGreedToday);
          amount = (if doubleInvestment then contribution_of params * 2 else contribution_of params)
      in if folds_accumulated fearGreedToday st then amount + accumulatedCash st else amount)"

text \<open>Lines 419-441: the ledger after the amount is added to the cash.\<close>

definition deposit_contribution :: "BacktestParams \<Rightarrow> FearGreedDataPoint option \<Rightarrow> Ledger \<Rightarrow> Ledger" where
  "deposit_contribution params fearGreedToday st =
     (let dbg1 = (if shouldInvestDouble (map_option fg_value fearGreedToday)
                  then (l_debugInfo st)\<lparr>doubleInvestments := doubleInvestments (l_debugInfo st) + 1\<rparr>
                  else l_debugInfo st);
          dbg2 = (if folds_accumulated fearGreedToday st
                  then dbg1\<lparr>accumulatedCashInvested := accumulatedCashInvested dbg1 + accumulatedCash st,
                            cashAccumulated := cashAccumulated dbg1 - accumulatedCash st\<rparr>
                  else dbg1);
          invested = (if folds_accumulated fearGreedToday st
                      then l_totalInvested st + accumulatedCash st
                      else l_totalInvested st)
      in st\<lparr>accumulatedCash := (if folds_accumulated fearGreedToday st then 0 else accumulatedCash st),
            cash := cash st + amountToInvest params fearGreedToday st,
            l_totalInvested := invested + contribution_of params,
            l_debugInfo := dbg2\<lparr>weeklyContributionsInvested := weeklyContributionsInvested dbg2 + 1\<rparr>\<rparr>)"

text \<open>Lines 416-479: the contribution is deployed now.\<close>

definition invest_contribution :: "BacktestParams \<Rightarrow> MarketDataPoint \<Rightarrow> FearGreedDataPoint option \<Rightarrow> Ledger \<Rightarrow> Ledger" where
  "invest_contribution params currentDay fearGreedToday st =
     weekly_buy currentDay
       (shouldInvestDouble (map_option fg_value fearGreedToday))
       (amountToInvest params fearGreedToday st > contribution_of params * 2)
       (deposit_contribution params fearGreedToday st)"

text \<open>Lines 481-485: the contribution is deferred.\<close>

definition skip_contribution :: "BacktestParams \<Rightarrow> Ledger \<Rightarrow> Ledger" where
  "skip_contribution params st =
     st\<lparr>accumulatedCash := accumulatedCash st + contribution_of params,
        l_skippedContributions := l_skippedContributions st + 1,
        l_debugInfo := (l_debugInfo st)
          \<lparr>cashAccumulated := cashAccumulated (l_debugInfo st) + contribution_of params,
           weeklyContributionsSkipped := weeklyContributionsSkipped (l_debugInfo st) + 1\<rparr>\<rparr>"

text \<open>Lines 405-412: the event is counted and buy-and-hold buys unconditionally.\<close>

definition count_contribution :: "BacktestParams \<Rightarrow> MarketDataPoint \<Rightarrow> Ledger \<Rightarrow> Ledger" where
  "count_contribution params currentDay st =
     st\<lparr>l_totalContributions := l_totalContributions st + 1,
        lastContributionDate := md_date currentDay,
        buyAndHoldShares := buyAndHoldShares st
           + (buyAndHoldCash st + contribution_of params) / md_close currentDay,
        buyAndHoldCash := 0\<rparr>"

text \<open>Lines 400-488.\<close>

definition weekly_contribution :: "Env \<Rightarrow> BacktestParams \<Rightarrow> nat \<Rightarrow> MarketDataPoint \<Rightarrow> FearGreedDataPoint option \<Rightarrow> Ledger \<Rightarrow> Ledger" where
  "weekly_contribution env params i currentDay fearGreedToday st =
     (if lump_of params then st
      else (let daysSinceLastContribution =
                  real_of_int (md_date currentDay - lastContributionDate st) / real_of_int MS_PER_DAY
            in if daysSinceLastContribution \<ge> DAYS_IN_WEEK then
                 (let inDowntrend = isInDowntrend (marketData params) i
                  in if shouldInvestWeeklyAmount env (map_option fg_value fearGreedToday) inDowntrend
                          (variant_of params)
                     then invest_contribution params currentDay fearGreedToday
                            (count_contribution params currentDay st)
                     else skip_contribution params (count_contribution params currentDay st))
               else st))"

subsection \<open>Step (c): cooldown flags\<close>

definition inCooldown :: "nat \<Rightarrow> MarketDataPoint \<Rightarrow> Ledger \<Rightarrow> bool" where
  "inCooldown cooldownPeriods currentDay st =
     (let inBuyCooldown =
            (case lastBuyDate st of
               None \<Rightarrow> False
             | Some d \<Rightarrow> md_date currentDay - d < int cooldownPeriods * 24 * 60 * 60 * 1000);
          inSellCooldown =
            (case lastSellDate st of
               None \<Rightarrow> False
             | Some d \<Rightarrow> md_date currentDay - d < \<lceil>real cooldownPeriods / 2\<rceil> * 24 * 60 * 60 * 1000)
      in inBuyCooldown \<or> inSellCooldown)"

subsection \<open>Step (e): sell (lines 515-562)\<close>

definition shouldSell :: "Env \<Rightarrow> Variant \<Rightarrow> real \<Rightarrow> bool" where
  "shouldSell env variant v =
     (if variant = Default \<and> v \<ge> GREED_THRESHOLD env then True
      else if variant = ExtremeOnly \<and> v \<ge> EXTREME_GREED_THRESHOLD then True
      else if variant = Combined \<and> (v \<ge> GREED_THRESHOLD env \<or> v \<ge> EXTREME_GREED_THRESHOLD) then True
      else False)"

definition sell_step :: "Env \<Rightarrow> BacktestParams \<Rightarrow> MarketDataPoint \<Rightarrow> FearGreedDataPoint \<Rightarrow> Ledger \<Rightarrow> Ledger" where
  "sell_step env params currentDay fearGreedToday st =
     (case lastBuyPrice st of
        None \<Rightarrow> st
      | Some buyPrice \<Rightarrow>
          if variant_of params \<noteq> ExtremeFearHold \<and> shares st > 0 then
            (if shouldSell env (variant_of params) (fg_value fearGreedToday) then
               (let currentProfit = (md_close currentDay - buyPrice) / buyPrice
                in if currentProfit \<ge> MIN_PROFIT_PERCENT then
                     (let sharesToSell = shares st * SELL_PERCENTAGE;
                          sellValue = sharesToSell * md_close currentDay
                      in if sharesToSell > 0 then
                           st\<lparr>shares := shares st - sharesToSell,
                              cash := cash st + sellValue,
                              lastSellDate := Some (md_date currentDay),
                              l_debugInfo := (l_debugInfo st)\<lparr>executedSells := executedSells (l_debugInfo st) + 1\<rparr>,
                              l_trades := l_trades st @
                                [\<lparr>t_date = md_date currentDay, t_type = sell, t_price = md_close currentDay,
                                  t_shares = sharesToSell, t_value = sellValue, t_reason = TakingProfit\<rparr>]\<rparr>
                         else st)
                   else st)
             else st)
          else st)"

subsection \<open>Step (f): release of the accumulated cash (lines 564-605)\<close>

definition release_step :: "BacktestParams \<Rightarrow> bool \<Rightarrow> MarketDataPoint \<Rightarrow> FearGreedDataPoint \<Rightarrow> Ledger \<Rightarrow> Ledger" where
  "release_step params cooling currentDay fearGreedToday st =
     (if \<not> lump_of params \<and> accumulatedCash st > 0
         \<and> fg_value fearGreedToday \<le> EXTREME_FEAR_THRESHOLD \<and> \<not> cooling then
        (let cashToInvest = accumulatedCash st;
             st1 = st\<lparr>cash := cash st + cashToInvest,
                      accumulatedCash := 0,
                      l_debugInfo := (l_debugInfo st)
                        \<lparr>accumulatedCashInvested := accumulatedCashInvested (l_debugInfo st) + cashToInvest\<rparr>,
                      l_totalInvested := l_totalInvested st + cashToInvest\<rparr>
         in if cash st1 > 0 then
              (let sharesToBuy = cash st1 / md_close currentDay
               in if sharesToBuy > 0 then
                    (let cost = sharesToBuy * md_close currentDay
                     in st1\<lparr>shares := shares st1 + sharesToBuy,
                            cash := cash st1 - cost,
                            lastBuyDate := Some (md_date currentDay),
                            lastBuyPrice := Some (md_close currentDay),
                            l_debugInfo := (l_debugInfo st1)\<lparr>executedBuys := executedBuys (l_debugInfo st1) + 1\<rparr>,
                            l_trades := l_trades st1 @
                              [\<lparr>t_date = md_date currentDay, t_type = buy, t_price = md_close currentDay,
                                t_shares = sharesToBuy, t_value = cost, t_reason = AccumulatedCashInvested\<rparr>]\<rparr>)
                  else st1)
            else st1)
      else st)"

subsection \<open>Step (g): lump-sum buy (lines 607-677)\<close>

definition shouldBuy :: "Env \<Rightarrow> Variant \<Rightarrow> real \<Rightarrow> bool" where
  "shouldBuy env variant v =
     (if variant = Default \<and> v \<le> FEAR_THRESHOLD env then True
      else if variant = ExtremeOnly \<and> v \<le> EXTREME_FEAR_THRESHOLD then True
      else if variant = ExtremeFearHold \<and> v \<le> EXTREME_FEAR_THRESHOLD then True
      else if variant = Combined \<and> (v \<le> FEAR_THRESHOLD env \<or> v \<le> EXTREME_FEAR_THRESHOLD) then True
      else False)"

definition allocationMultiplier :: "Env \<Rightarrow> real \<Rightarrow> real" where
  "allocationMultiplier env v =
     (let fearLevel = max 0 (FEAR_THRESHOLD env - v) / FEAR_THRESHOLD env
      in if v \<le> EXTREME_FEAR_THRESHOLD
         then ALLOCATION_PERCENTAGE + fearLevel * (3 / 10)
         else ALLOCATION_PERCENTAGE + fearLevel * (1 / 10))"

definition lumpsum_step :: "Env \<Rightarrow> BacktestParams \<Rightarrow> bool \<Rightarrow> bool \<Rightarrow> MarketDataPoint \<Rightarrow> FearGreedDataPoint \<Rightarrow> Ledger \<Rightarrow> Ledger" where
  "lumpsum_step env params cooling inDowntrend currentDay fearGreedToday st =
     (if lump_of params then
        (if shouldBuy env (variant_of params) (fg_value fearGreedToday) \<and> cash st > 0 \<and> \<not> cooling
            \<and> (variant_of params = ExtremeFearHold \<or> \<not> inDowntrend
                 \<or> fg_value fearGreedToday \<le> EXTREME_FEAR_THRESHOLD) then
           (let cashToSpend = cash st * allocationMultiplier env (fg_value fearGreedToday);
                sharesToBuy = cashToSpend / md_close currentDay
            in if sharesToBuy > 0 then
                 (let cost = sharesToBuy * md_close currentDay
                  in st\<lparr>shares := shares st + sharesToBuy,
                        cash := cash st - cost,
                        lastBuyDate := Some (md_date currentDay),
                        lastBuyPrice := Some (md_close currentDay),
                        l_debugInfo := (l_debugInfo st)\<lparr>executedBuys := executedBuys (l_debugInfo st) + 1\<rparr>,
                        l_trades := l_trades st @
                          [\<lparr>t_date = md_date currentDay, t_type = buy, t_price = md_close currentDay,
                            t_shares = sharesToBuy, t_value = cost,
                            t_reason = FearGreedIndexBuy inDowntrend\<rparr>]\<rparr>)
               else st)
         else st)
      else st)"

subsection \<open>One iteration of the day loop (lines 390-678)\<close>

definition simulate_day :: "Env \<Rightarrow> BacktestParams \<Rightarrow> nat \<Rightarrow> Ledger \<Rightarrow> nat \<Rightarrow> Ledger" where
  "simulate_day env params cooldownPeriods st i =
     (let currentDay = marketData params ! i;
          fearGreedToday = findClosestFearGreedData (md_date currentDay) (fearGreedData params);
          st1 = weekly_contribution env params i currentDay fearGreedToday st;
          portfolioValue = cash st1 + shares st1 * md_close currentDay;
          st2 = st1\<lparr>equityCurve := equityCurve st1 @ [portfolioValue]\<rparr>;
          cooling = inCooldown cooldownPeriods currentDay st2
      in (case fearGreedToday of
            None \<Rightarrow> st2
          | Some fg \<Rightarrow>
              (let inDowntrend = isInDowntrend (marketData params) i;
                   st3 = sell_step env params currentDay fg st2;
                   st4 = release_step params cooling currentDay fg st3
               in lumpsum_step env params cooling inDowntrend currentDay fg st4)))"

text \<open>The ledger after the first \<open>n\<close> days of the loop.\<close>

definition run_days :: "Env \<Rightarrow> BacktestParams \<Rightarrow> nat \<Rightarrow> Ledger" where
  "run_days env params n =
     foldl (simulate_day env params (determineCooldownPeriod (marketData params)))
       (initial_ledger params (hd (marketData params))) [0..<n]"

subsection \<open>Final cash sweep (lines 686-714)\<close>

definition final_sweep :: "MarketDataPoint \<Rightarrow> Ledger \<Rightarrow> Ledger" where
  "final_sweep finalDay st =
     (if cash st > 0 then
        (let finalSharesToBuy = cash st / md_close finalDay
         in if finalSharesToBuy > 0 then
              (let cost = finalSharesToBuy * md_close finalDay
               in st\<lparr>shares := shares st + finalSharesToBuy,
                     cash := cash st - cost,
                     l_debugInfo := (l_debugInfo st)\<lparr>executedBuys := executedBuys (l_debugInfo st) + 1\<rparr>,
                     l_trades := l_trades st @
                       [\<lparr>t_date = md_date finalDay, t_type = buy, t_price = md_close finalDay,
                         t_shares = finalSharesToBuy, t_value = cost, t_reason = FinalCashAllocation\<rparr>]\<rparr>)
            else st)
      else st)"

text \<open>The ledger when the loop and the sweep are done.\<close>

definition final_ledger :: "Env \<Rightarrow> BacktestParams \<Rightarrow> Ledger" where
  "final_ledger env params =
     final_sweep (last (marketData params)) (run_days env params (length (marketData params)))"

subsection \<open>Closing metrics (lines 716-739)\<close>

text \<open>
  Division of two finite numbers, the divisor zero being \<open>+0\<close>; addition of a finite number;
  and \<open>Math.pow\<close> (ECMAScript \<open>Number::exponentiate\<close>, without the sign of zero).
\<close>

definition js_div :: "real \<Rightarrow> real \<Rightarrow> jsnum" where
  "js_div a b =
     (if b \<noteq> 0 then Fin (a / b)
      else if a = 0 then NaN
      else if a > 0 then PosInf
      else NegInf)"

fun js_add :: "jsnum \<Rightarrow> real \<Rightarrow> jsnum" where
  "js_add (Fin a) c = Fin (a + c)"
| "js_add PosInf c = PosInf"
| "js_add NegInf c = NegInf"
| "js_add NaN c = NaN"

definition is_integer :: "real \<Rightarrow> bool" where
  "is_integer e = (e = real_of_int \<lfloor>e\<rfloor>)"

fun js_pow :: "jsnum \<Rightarrow> jsnum \<Rightarrow> jsnum" where
  "js_pow b NaN = NaN"
| "js_pow b (Fin e) =
     (if e = 0 then Fin 1
      else (case b of
              NaN \<Rightarrow> NaN
            | PosInf \<Rightarrow> (if e > 0 then PosInf else Fin 0)
            | NegInf \<Rightarrow> (if e > 0 then (if is_integer e \<and> odd \<lfloor>e\<rfloor> then NegInf else PosInf) else Fin 0)
            | Fin x \<Rightarrow>
                if x = 0 then (if e > 0 then Fin 0 else PosInf)
                else if x < 0 then (if is_integer e then Fin (x powi \<lfloor>e\<rfloor>) else NaN)
                else Fin (x powr e)))"
| "js_pow b PosInf =
     (case b of
        NaN \<Rightarrow> NaN
      | Fin x \<Rightarrow> (if \<bar>x\<bar> > 1 then PosInf else if \<bar>x\<bar> = 1 then NaN else Fin 0)
      | PosInf \<Rightarrow> PosInf
      | NegInf \<Rightarrow> PosInf)"
| "js_pow b NegInf =
     (case b of
        NaN \<Rightarrow> NaN
      | Fin x \<Rightarrow> (if \<bar>x\<bar> > 1 then Fin 0 else if \<bar>x\<bar> = 1 then NaN else PosInf)
      | PosInf \<Rightarrow> Fin 0
      | NegInf \<Rightarrow> Fin 0)"

definition strategyName_of :: "Variant \<Rightarrow> string" where
  "strategyName_of v =
     (case v of
        Default \<Rightarrow> ''Fear & Greed''
      | ExtremeOnly \<Rightarrow> ''Extreme Fear & Greed Only''
      | ExtremeFearHold \<Rightarrow> ''Extreme Fear Buy & Hold''
      | Combined \<Rightarrow> ''Combined Approach'')"

definition runBacktest :: "Env \<Rightarrow> BacktestParams \<Rightarrow> Error + StrategyResult" where
  "runBacktest env params =
     (case marketData params of
        [] \<Rightarrow> Inl (NoMarketData (symbol params))
      | firstDayData # _ \<Rightarrow>
          (let finalDay = last (marketData params);
               st = final_ledger env params;
               finalValue' = cash st + shares st * md_close finalDay + accumulatedCash st;
               totalInvested' = (if \<not> lump_of params then l_totalInvested st + accumulatedCash st
                                 else l_totalInvested st);
               totalReturn' = js_add (js_div finalValue' totalInvested') (- 1);
               yearFraction = real_of_int (md_date finalDay - md_date firstDayData)
                                / real_of_int (1000 * 60 * 60 * 24 * 365);
               annualizedReturn' = js_add (js_pow (js_add totalReturn' 1) (js_div 1 yearFraction)) (- 1);
               buyAndHoldValue' = buyAndHoldShares st * md_close finalDay;
               buyAndHoldReturn' = js_add (js_div buyAndHoldValue' totalInvested') (- 1)
           in Inr \<lparr>res_symbol = symbol params,
                   strategyName = strategyName_of (variant_of params),
                   trades = l_trades st,
                   finalValue = finalValue',
                   totalReturn = totalReturn',
                   annualizedReturn = annualizedReturn',
                   maxDrawdown = calculateMaxDrawdown (equityCurve st),
                   buyAndHoldValue = buyAndHoldValue',
                   buyAndHoldReturn = buyAndHoldReturn',
                   skippedContributions = l_skippedContributions st,
                   totalContributions = l_totalContributions st,
                   totalInvested = totalInvested',
                   debugInfo = l_debugInfo st\<rparr>))"

section \<open>Notions of the specification and concrete inputs\<close>

text \<open>
  The cooldown policy as the specification words it: the average, in days, of up to the
  first \<open>k\<close> consecutive gaps between price points, classified by the thresholds 20 and 5.
\<close>

definition first_gaps :: "nat \<Rightarrow> MarketDataPoint list \<Rightarrow> real list" where
  "first_gaps k md =
     map (\<lambda>i. real_of_int (md_date (md ! Suc i) - md_date (md ! i)) / real_of_int MS_PER_DAY)
         [0..<min k (length md - 1)]"

definition cooldown_by_gaps :: "nat \<Rightarrow> MarketDataPoint list \<Rightarrow> nat" where
  "cooldown_by_gaps k md =
     (if length md < 2 then 20
      else (let avg = sum_list (first_gaps k md) / real (length (first_gaps k md))
            in if avg > 20 then 1 else if avg > 5 then 3 else 15))"

text \<open>
  The drawdown as the specification words it: the running maximum up to and including
  index \<open>i\<close>, and the relative decline from it at index \<open>i\<close>.
\<close>

definition peak_so_far :: "real list \<Rightarrow> nat \<Rightarrow> real" where
  "peak_so_far xs i = Max (set (take (Suc i) xs))"

definition drawdown_at :: "real list \<Rightarrow> nat \<Rightarrow> real" where
  "drawdown_at xs i = (peak_so_far xs i - xs ! i) / peak_so_far xs i"

text \<open>Midnight UTC of day \<open>n\<close> after the epoch.\<close>

definition day :: "int \<Rightarrow> Date" where
  "day n = n * MS_PER_DAY"

text \<open>Eleven price points: ten on consecutive days, the eleventh 1000 days later.\<close>

definition c5_series :: "MarketDataPoint list" where
  "c5_series = map (\<lambda>n. \<lparr>md_date = day n, md_close = 100\<rparr>) [0, 1, 2, 3, 4, 5, 6, 7, 8, 9, 1009]"

text \<open>Three sentiment points, on days 0, 8 and 10.\<close>

definition c7_points :: "FearGreedDataPoint list" where
  "c7_points =
     [\<lparr>fg_date = day 0, fg_value = 10, fg_classification = ''Extreme Fear''\<rparr>,
      \<lparr>fg_date = day 8, fg_value = 50, fg_classification = ''Neutral''\<rparr>,
      \<lparr>fg_date = day 10, fg_value = 90, fg_classification = ''Extreme Greed''\<rparr>]"

text \<open>
  The capital put into the strategy's cash, from the counters the run keeps: the lump sum,
  one contribution amount per invested contribution, one more per doubled contribution,
  and the accumulated cash released.
\<close>

definition capital_injected :: "BacktestParams \<Rightarrow> DebugInfo \<Rightarrow> real" where
  "capital_injected params dbg =
     (if lump_of params then initialCapital params else 0)
     + contribution_of params * real (weeklyContributionsInvested dbg)
     + contribution_of params * real (doubleInvestments dbg)
     + accumulatedCashInvested dbg"

text \<open>
  Periodic mode with the defaults: two price points seven days apart at price 100, and
  sentiment 10 (extreme fear) on the second day.
\<close>

definition c2_params :: BacktestParams where
  "c2_params =
     \<lparr>marketData = [\<lparr>md_date = day 0, md_close = 100\<rparr>, \<lparr>md_date = day 7, md_close = 100\<rparr>],
      fearGreedData = [\<lparr>fg_date = day 7, fg_value = 10, fg_classification = ''Extreme Fear''\<rparr>],
      symbol = ''S&P 500'', initialCapital = 10000, strategyVariant = None,
      weeklyContribution = None, useLumpSum = None\<rparr>"

text \<open>Lump-sum mode with a negative initial capital: one price point, no sentiment data.\<close>

definition c3_params :: BacktestParams where
  "c3_params =
     \<lparr>marketData = [\<lparr>md_date = day 0, md_close = 100\<rparr>],
      fearGreedData = [],
      symbol = ''S&P 500'', initialCapital = - 100, strategyVariant = None,
      weeklyContribution = None, useLumpSum = Some True\<rparr>"

text \<open>Lump-sum mode on a single price point, capital 1000, no sentiment data.\<close>

definition c4_params :: BacktestParams where
  "c4_params =
     \<lparr>marketData = [\<lparr>md_date = day 0, md_close = 100\<rparr>],
      fearGreedData = [],
      symbol = ''S&P 500'', initialCapital = 1000, strategyVariant = None,
      weeklyContribution = None, useLumpSum = Some True\<rparr>"

text \<open>The same with sentiment 10 (extreme fear) on that day.\<close>

definition c8_params :: BacktestParams where
  "c8_params =
     \<lparr>marketData = [\<lparr>md_date = day 0, md_close = 100\<rparr>],
      fearGreedData = [\<lparr>fg_date = day 0, fg_value = 10, fg_classification = ''Extreme Fear''\<rparr>],
      symbol = ''S&P 500'', initialCapital = 1000, strategyVariant = None,
      weeklyContribution = None, useLumpSum = Some True\<rparr>"

text \<open>
  Lump-sum mode, a given variant: a buy at price 100 in extreme fear on day 0, then
  price 120 in extreme greed on day 20.
\<close>

definition c10_params :: "Variant \<Rightarrow> BacktestParams" where
  "c10_params v =
     \<lparr>marketData = [\<lparr>md_date = day 0, md_close = 100\<rparr>, \<lparr>md_date = day 20, md_close = 120\<rparr>],
      fearGreedData = [\<lparr>fg_date = day 0, fg_value = 10, fg_classification = ''Extreme Fear''\<rparr>,
                       \<lparr>fg_date = day 20, fg_value = 90, fg_classification = ''Extreme Greed''\<rparr>],
      symbol = ''S&P 500'', initialCapital = 1000, strategyVariant = Some v,
      weeklyContribution = None, useLumpSum = Some True\<rparr>"

text \<open>
  Whether the single day of a one-point lump-sum run meets the variant's buy rule: a
  sentiment point resolves for the day and its value is within the rule's threshold.
\<close>

definition lump_buy_today :: "Env \<Rightarrow> BacktestParams \<Rightarrow> MarketDataPoint \<Rightarrow> bool" where
  "lump_buy_today env params pt =
     (case findClosestFearGreedData (md_date pt) (fearGreedData params) of
        None \<Rightarrow> False
      | Some fg \<Rightarrow> shouldBuy env (variant_of params) (fg_value fg))"

section \<open>Invariants of the ledger\<close>

text \<open>
  The trade log is empty or starts with a buy, and a last-buy price is recorded only
  when the log is not empty.
\<close>

definition log_ok :: "Ledger \<Rightarrow> bool" where
  "log_ok st =
     ((l_trades st = [] \<or> t_type (hd (l_trades st)) = buy)
      \<and> (lastBuyPrice st = None \<or> l_trades st \<noteq> []))"

definition only_buys :: "Ledger \<Rightarrow> bool" where
  "only_buys st = list_all (\<lambda>t. t_type t = buy) (l_trades st)"

text \<open>
  Every contribution event is counted once at the regular amount, in the invested total
  or in the accumulated cash; in lump-sum mode there are no contribution events.
\<close>

definition invested_ok :: "BacktestParams \<Rightarrow> Ledger \<Rightarrow> bool" where
  "invested_ok params st =
     (l_totalInvested st + accumulatedCash st
        = (if lump_of params then initialCapital params else 0)
          + contribution_of params * real (l_totalContributions st)
      \<and> (\<not> lump_of params \<or> (accumulatedCash st = 0 \<and> l_totalContributions st = 0)))"

definition solvent :: "Ledger \<Rightarrow> bool" where
  "solvent st = (0 \<le> cash st \<and> 0 \<le> shares st)"

section \<open>Decision engine: the weekly invest-now decision\<close>

text \<open>
  Claim C1. The claim says that in a downtrend with sentiment above the extreme-fear
  threshold the weekly decision is always false. The variant rules return before the
  downtrend check is reached: with the default thresholds, the default variant at
  sentiment 30 (above 20, within the fear threshold 40) answers true in a downtrend.
  The check sits in front of a final \<open>return false\<close>, so the decision is the same with
  and without a downtrend.
\<close>

theorem C1_downtrend_veto_unreached:
  "shouldInvestWeeklyAmount default_env (Some 30) True Default = True
   \<and> (30::real) > EXTREME_FEAR_THRESHOLD
   \<and> shouldInvestWeeklyAmount env v True variant = shouldInvestWeeklyAmount env v False variant"
proof (intro conjI)
  show "shouldInvestWeeklyAmount default_env (Some 30) True Default = True"
    by (simp add: shouldInvestWeeklyAmount_def default_env_def DEFAULT_FEAR_THRESHOLD_def)
  show "(30::real) > EXTREME_FEAR_THRESHOLD"
    by (simp add: EXTREME_FEAR_THRESHOLD_def)
  show "shouldInvestWeeklyAmount env v True variant = shouldInvestWeeklyAmount env v False variant"
    by (cases v) (simp_all add: shouldInvestWeeklyAmount_def)
qed

section \<open>Cooldown policy\<close>

lemma upt_shift: "[1..<min 10 n] = map Suc [0..<min 9 (n - 1)]"
proof (cases n)
  case 0
  then show ?thesis by simp
next
  case (Suc m)
  have "[1..<min 10 (Suc m)] = [Suc 0..<Suc (min 9 m)]" by simp
  also have "\<dots> = map Suc [0..<min 9 m]"
    by (simp only: map_Suc_upt)
  finally have "[1..<min 10 (Suc m)] = map Suc [0..<min 9 (Suc m - 1)]"
    by (simp only: diff_Suc_1)
  then show ?thesis by (simp only: Suc)
qed

lemma dateDiffs_shift: "dateDiffs md = first_gaps 9 md"
  unfolding dateDiffs_def first_gaps_def upt_shift by (simp add: comp_def)

text \<open>
  Claim C5, as the claim states it with ten gaps, fails: on eleven points of which the
  first ten are one day apart and the last is 1000 days later, the average of the first
  ten gaps is 100.9 days (cooldown 1), while the code averages the nine gaps between the
  first ten points and returns 15.
\<close>

theorem C5_ten_gaps_counterexample:
  "determineCooldownPeriod c5_series = 15 \<and> cooldown_by_gaps 10 c5_series = 1"
proof -
  have "dateDiffs c5_series = [1, 1, 1, 1, 1, 1, 1, 1, 1]"
    by (simp add: dateDiffs_def c5_series_def day_def MS_PER_DAY_def upt_conv_Cons)
  moreover have "first_gaps 10 c5_series = [1, 1, 1, 1, 1, 1, 1, 1, 1, 1000]"
    by (simp add: first_gaps_def c5_series_def day_def MS_PER_DAY_def upt_conv_Cons)
  moreover have "length c5_series = 11"
    by (simp add: c5_series_def)
  ultimately show ?thesis
    by (simp add: determineCooldownPeriod_def cooldown_by_gaps_def)
qed

text \<open>
  Claim C5, amended: determineCooldownPeriod averages, in days, the gaps between the first
  ten price points, which are up to nine gaps, and returns 1 when the average exceeds 20
  days, 3 when it is in (5, 20], 15 when it is at most 5, and 20 when the series has fewer
  than two points.
\<close>

theorem C5_determineCooldownPeriod:
  "determineCooldownPeriod md = cooldown_by_gaps 9 md"
  by (simp add: determineCooldownPeriod_def cooldown_by_gaps_def dateDiffs_shift)

section \<open>Indicator index\<close>

lemma find_sound: "findClosestFearGreedData d fg = Some x \<Longrightarrow> x \<in> set fg"
  by (auto simp: findClosestFearGreedData_def Let_def find_Some_iff split: if_splits option.splits)

lemma closest_scan_inv:
  "n \<le> length fg \<Longrightarrow>
   (case foldl (closest_step d fg) (- 1, None) [0..<n] of
      (ci, md) \<Rightarrow>
        (n = 0 \<and> ci = - 1 \<and> md = None)
        \<or> (\<exists>i<n. ci = int i \<and> md = Some \<bar>fg_date (fg ! i) - d\<bar>
              \<and> (\<forall>j<n. \<bar>fg_date (fg ! i) - d\<bar> \<le> \<bar>fg_date (fg ! j) - d\<bar>)
              \<and> (\<forall>j<i. \<bar>fg_date (fg ! i) - d\<bar> < \<bar>fg_date (fg ! j) - d\<bar>)))"
proof (induction n)
  case 0
  then show ?case by simp
next
  case (Suc n)
  then have le: "n \<le> length fg" by simp
  obtain ci md where st: "foldl (closest_step d fg) (- 1, None) [0..<n] = (ci, md)"
    by (cases "foldl (closest_step d fg) (- 1, None) [0..<n]")
  have nxt: "foldl (closest_step d fg) (- 1, None) [0..<Suc n] = closest_step d fg (ci, md) n"
    using st by simp
  from Suc.IH [OF le] st
  consider (init) "n = 0" "ci = - 1" "md = None"
    | (some) i where "i < n" "ci = int i" "md = Some \<bar>fg_date (fg ! i) - d\<bar>"
        "\<forall>j<n. \<bar>fg_date (fg ! i) - d\<bar> \<le> \<bar>fg_date (fg ! j) - d\<bar>"
        "\<forall>j<i. \<bar>fg_date (fg ! i) - d\<bar> < \<bar>fg_date (fg ! j) - d\<bar>"
    by auto
  then show ?case
  proof cases
    case init
    then show ?thesis unfolding nxt by (simp add: closest_step_def)
  next
    case some
    show ?thesis
    proof (cases "\<bar>fg_date (fg ! n) - d\<bar> < \<bar>fg_date (fg ! i) - d\<bar>")
      case True
      have "\<forall>j<Suc n. \<bar>fg_date (fg ! n) - d\<bar> \<le> \<bar>fg_date (fg ! j) - d\<bar>"
        using True some(4) by (auto simp: less_Suc_eq) 
      moreover have "\<forall>j<n. \<bar>fg_date (fg ! n) - d\<bar> < \<bar>fg_date (fg ! j) - d\<bar>"
        using True some(4) by fastforce
      ultimately show ?thesis using some(3) True unfolding nxt
        by (auto simp: closest_step_def)
    next
      case False
      have "\<forall>j<Suc n. \<bar>fg_date (fg ! i) - d\<bar> \<le> \<bar>fg_date (fg ! j) - d\<bar>"
        using False some(4) by (auto simp: less_Suc_eq)
      then show ?thesis using some False unfolding nxt
        by (auto simp: closest_step_def intro!: exI[of _ i])
    qed
  qed
qed


lemma closest_scan_nonempty:
  assumes "fg \<noteq> []"
  shows "\<exists>i<length fg. closest_scan d fg = (int i, Some \<bar>fg_date (fg ! i) - d\<bar>)
           \<and> (\<forall>j<length fg. \<bar>fg_date (fg ! i) - d\<bar> \<le> \<bar>fg_date (fg ! j) - d\<bar>)
           \<and> (\<forall>j<i. \<bar>fg_date (fg ! i) - d\<bar> < \<bar>fg_date (fg ! j) - d\<bar>)"
proof -
  have "length fg \<noteq> 0" using assms by simp
  with closest_scan_inv [of "length fg" fg d] show ?thesis
    unfolding closest_scan_def by (auto split: prod.splits)
qed

lemma findClosest_no_exact:
  assumes "fg \<noteq> []" and "List.find (\<lambda>item. isoDate (fg_date item) = isoDate d) fg = None"
  shows "\<exists>i<length fg. findClosestFearGreedData d fg = Some (fg ! i)
           \<and> (\<forall>j<length fg. \<bar>fg_date (fg ! i) - d\<bar> \<le> \<bar>fg_date (fg ! j) - d\<bar>)
           \<and> (\<forall>j<i. \<bar>fg_date (fg ! i) - d\<bar> < \<bar>fg_date (fg ! j) - d\<bar>)"
proof -
  from closest_scan_nonempty [OF assms(1), of d] obtain i where
    i: "i < length fg" "closest_scan d fg = (int i, Some \<bar>fg_date (fg ! i) - d\<bar>)"
       "\<forall>j<length fg. \<bar>fg_date (fg ! i) - d\<bar> \<le> \<bar>fg_date (fg ! j) - d\<bar>"
       "\<forall>j<i. \<bar>fg_date (fg ! i) - d\<bar> < \<bar>fg_date (fg ! j) - d\<bar>"
    by blast
  have "findClosestFearGreedData d fg = Some (fg ! i)"
    using assms i(1,2) by (simp add: findClosestFearGreedData_def)
  with i show ?thesis by blast
qed

lemma findClosest_exact:
  assumes "List.find (\<lambda>item. isoDate (fg_date item) = isoDate d) fg = Some x"
  shows "findClosestFearGreedData d fg = Some x"
proof -
  have "fg \<noteq> []" using assms by auto
  then show ?thesis using assms by (simp add: findClosestFearGreedData_def)
qed

text \<open>
  Claim C7. findClosestFearGreedData returns no match exactly when the sequence is empty;
  when some point has the target's calendar date it returns the first such point;
  otherwise it returns a point of minimum absolute time difference to the target, the one
  of lowest index among those.
\<close>

theorem C7_findClosestFearGreedData:
  "(findClosestFearGreedData d fg = None \<longleftrightarrow> fg = [])
   \<and> ((\<exists>x\<in>set fg. isoDate (fg_date x) = isoDate d) \<longrightarrow>
        (\<exists>i<length fg. findClosestFearGreedData d fg = Some (fg ! i)
            \<and> isoDate (fg_date (fg ! i)) = isoDate d
            \<and> (\<forall>j<i. isoDate (fg_date (fg ! j)) \<noteq> isoDate d)))
   \<and> (fg \<noteq> [] \<and> (\<forall>x\<in>set fg. isoDate (fg_date x) \<noteq> isoDate d) \<longrightarrow>
        (\<exists>i<length fg. findClosestFearGreedData d fg = Some (fg ! i)
            \<and> (\<forall>j<length fg. \<bar>fg_date (fg ! i) - d\<bar> \<le> \<bar>fg_date (fg ! j) - d\<bar>)
            \<and> (\<forall>j<i. \<bar>fg_date (fg ! i) - d\<bar> < \<bar>fg_date (fg ! j) - d\<bar>)))"
proof (intro conjI impI)
  show "findClosestFearGreedData d fg = None \<longleftrightarrow> fg = []"
  proof
    assume none: "findClosestFearGreedData d fg = None"
    show "fg = []"
    proof (rule ccontr)
      assume ne: "fg \<noteq> []"
      show False
      proof (cases "List.find (\<lambda>item. isoDate (fg_date item) = isoDate d) fg")
        case None
        from findClosest_no_exact [OF ne None] none show False by auto
      next
        case (Some x)
        from findClosest_exact [OF Some] none show False by simp
      qed
    qed
  next
    assume "fg = []"
    then show "findClosestFearGreedData d fg = None"
      by (simp add: findClosestFearGreedData_def)
  qed
next
  assume "\<exists>x\<in>set fg. isoDate (fg_date x) = isoDate d"
  then obtain x where "List.find (\<lambda>item. isoDate (fg_date item) = isoDate d) fg = Some x"
    by (cases "List.find (\<lambda>item. isoDate (fg_date item) = isoDate d) fg")
       (auto simp: find_None_iff)
  moreover from this obtain i where "i < length fg" "isoDate (fg_date (fg ! i)) = isoDate d"
      "x = fg ! i" "\<forall>j<i. isoDate (fg_date (fg ! j)) \<noteq> isoDate d"
    unfolding find_Some_iff by blast
  ultimately show "\<exists>i<length fg. findClosestFearGreedData d fg = Some (fg ! i)
            \<and> isoDate (fg_date (fg ! i)) = isoDate d
            \<and> (\<forall>j<i. isoDate (fg_date (fg ! j)) \<noteq> isoDate d)"
    using findClosest_exact by blast
next
  assume "fg \<noteq> [] \<and> (\<forall>x\<in>set fg. isoDate (fg_date x) \<noteq> isoDate d)"
  then have "fg \<noteq> []" "List.find (\<lambda>item. isoDate (fg_date item) = isoDate d) fg = None"
    by (auto simp: find_None_iff)
  then show "\<exists>i<length fg. findClosestFearGreedData d fg = Some (fg ! i)
            \<and> (\<forall>j<length fg. \<bar>fg_date (fg ! i) - d\<bar> \<le> \<bar>fg_date (fg ! j) - d\<bar>)
            \<and> (\<forall>j<i. \<bar>fg_date (fg ! i) - d\<bar> < \<bar>fg_date (fg ! j) - d\<bar>)"
    by (rule findClosest_no_exact)
qed

theorem C7_findClosestFearGreedData_witness:
  "(\<exists>x\<in>set c7_points. isoDate (fg_date x) = isoDate (day 10 + 5))
   \<and> (\<exists>i<length c7_points. findClosestFearGreedData (day 10 + 5) c7_points = Some (c7_points ! i)
         \<and> isoDate (fg_date (c7_points ! i)) = isoDate (day 10 + 5)
         \<and> (\<forall>j<i. isoDate (fg_date (c7_points ! j)) \<noteq> isoDate (day 10 + 5)))
   \<and> c7_points \<noteq> [] \<and> \<not> (\<exists>x\<in>set c7_points. isoDate (fg_date x) = isoDate (day 4))
   \<and> (\<exists>i<length c7_points. findClosestFearGreedData (day 4) c7_points = Some (c7_points ! i)
         \<and> (\<forall>j<length c7_points. \<bar>fg_date (c7_points ! i) - day 4\<bar> \<le> \<bar>fg_date (c7_points ! j) - day 4\<bar>)
         \<and> (\<forall>j<i. \<bar>fg_date (c7_points ! i) - day 4\<bar> < \<bar>fg_date (c7_points ! j) - day 4\<bar>))"
proof -
  have h1: "\<exists>x\<in>set c7_points. isoDate (fg_date x) = isoDate (day 10 + 5)"
    by (simp add: c7_points_def isoDate_def day_def MS_PER_DAY_def)
  have h2: "c7_points \<noteq> [] \<and> (\<forall>x\<in>set c7_points. isoDate (fg_date x) \<noteq> isoDate (day 4))"
    by (simp add: c7_points_def isoDate_def day_def MS_PER_DAY_def)
  from h1 h2 C7_findClosestFearGreedData [of "day 10 + 5" c7_points]
    C7_findClosestFearGreedData [of "day 4" c7_points]
  show ?thesis by blast
qed

section \<open>Drawdown tracker\<close>

lemma drawdown_at_bounds:
  assumes "i < length xs" and "\<forall>x\<in>set xs. 0 < x"
  shows "xs ! i \<le> peak_so_far xs i" and "0 < peak_so_far xs i"
    and "0 \<le> drawdown_at xs i" and "drawdown_at xs i < 1"
proof -
  have mem: "xs ! i \<in> set (take (Suc i) xs)"
    using assms(1) by (metis in_set_conv_nth length_take lessI min_less_iff_conj nth_take)
  then show le: "xs ! i \<le> peak_so_far xs i"
    by (simp add: peak_so_far_def)
  have pos: "0 < xs ! i" using assms by simp
  with le show p: "0 < peak_so_far xs i" by linarith
  show "0 \<le> drawdown_at xs i"
    using le p by (simp add: drawdown_at_def)
  show "drawdown_at xs i < 1"
    using pos p by (simp add: drawdown_at_def)
qed

lemma peak_so_far_Suc:
  assumes "Suc n < length xs"
  shows "peak_so_far xs (Suc n) = max (peak_so_far xs n) (xs ! Suc n)"
proof -
  have "take (Suc (Suc n)) xs = take (Suc n) xs @ [xs ! Suc n]"
    using assms by (simp add: take_Suc_conv_app_nth)
  moreover have "set (take (Suc n) xs) \<noteq> {}" using assms by auto
  ultimately show ?thesis
    by (simp add: peak_so_far_def max.commute)
qed

lemma drawdown_loop:
  assumes pos: "\<forall>x\<in>set xs. 0 < x"
  shows "n < length xs \<Longrightarrow>
         foldl drawdown_step (0, xs ! 0) (take (Suc n) xs)
           = (Max (drawdown_at xs ` {..n}), peak_so_far xs n)"
proof (induction n)
  case 0
  then have "take (Suc 0) xs = [xs ! 0]"
    by (cases xs) simp_all
  moreover have "0 < xs ! 0" using 0 pos by simp
  moreover have "peak_so_far xs 0 = xs ! 0"
    using 0 by (cases xs) (simp_all add: peak_so_far_def)
  ultimately show ?case
    by (simp add: drawdown_step_def drawdown_at_def Let_def)
next
  case (Suc n)
  then have n: "n < length xs" by simp
  have tk: "take (Suc (Suc n)) xs = take (Suc n) xs @ [xs ! Suc n]"
    using Suc.prems by (simp add: take_Suc_conv_app_nth)
  have fold: "foldl drawdown_step (0, xs ! 0) (take (Suc (Suc n)) xs)
        = drawdown_step (Max (drawdown_at xs ` {..n}), peak_so_far xs n) (xs ! Suc n)"
    unfolding tk using Suc.IH [OF n] by simp
  have pk: "peak_so_far xs (Suc n) = max (peak_so_far xs n) (xs ! Suc n)"
    using Suc.prems by (rule peak_so_far_Suc)
  have ppos: "0 < peak_so_far xs n"
    using drawdown_at_bounds(2) [OF n pos] .
  have img: "Max (drawdown_at xs ` {..Suc n})
        = max (Max (drawdown_at xs ` {..n})) (drawdown_at xs (Suc n))"
    by (simp add: atMost_Suc max.commute)
  have nonneg: "0 \<le> Max (drawdown_at xs ` {..n})"
  proof -
    have "0 < length xs" using n by (cases xs) simp_all
    then have "0 \<le> drawdown_at xs 0"
      using pos by (rule drawdown_at_bounds(3))
    also have "\<dots> \<le> Max (drawdown_at xs ` {..n})" by simp
    finally show ?thesis .
  qed
  show ?case
  proof (cases "xs ! Suc n > peak_so_far xs n")
    case True
    then have "peak_so_far xs (Suc n) = xs ! Suc n" using pk by simp
    then have "drawdown_at xs (Suc n) = 0" by (simp add: drawdown_at_def)
    with True nonneg show ?thesis
      unfolding fold img by (simp add: drawdown_step_def pk Let_def)
  next
    case False
    then have eq: "peak_so_far xs (Suc n) = peak_so_far xs n" using pk by simp
    then have "drawdown_at xs (Suc n) = (peak_so_far xs n - xs ! Suc n) / peak_so_far xs n"
      by (simp add: drawdown_at_def)
    with False ppos show ?thesis
      unfolding fold img by (simp add: drawdown_step_def eq Let_def)
  qed
qed

lemma calculateMaxDrawdown_eq:
  assumes "xs \<noteq> []" and "\<forall>x\<in>set xs. 0 < x"
  shows "calculateMaxDrawdown xs = Max (drawdown_at xs ` {..<length xs})"
proof -
  obtain n where n: "length xs = Suc n" using assms(1) by (cases xs) auto
  then have "take (Suc n) xs = xs" by simp
  moreover have "{..<length xs} = {..n}" using n by (simp add: lessThan_Suc_atMost)
  moreover have "calculateMaxDrawdown xs = fst (foldl drawdown_step (0, xs ! 0) xs)"
    using assms(1) by (cases xs) (simp_all add: calculateMaxDrawdown_def)
  ultimately show ?thesis
    using drawdown_loop [OF assms(2), of n] n by simp
qed

lemma sorted_peak:
  assumes "sorted xs" and "i < length xs"
  shows "peak_so_far xs i = xs ! i"
proof -
  have "\<forall>y\<in>set (take (Suc i) xs). y \<le> xs ! i"
  proof
    fix y assume "y \<in> set (take (Suc i) xs)"
    then obtain j where "j < Suc i" "j < length xs" "y = xs ! j"
      by (auto simp: in_set_conv_nth)
    then show "y \<le> xs ! i"
      using assms by (simp add: sorted_nth_mono)
  qed
  moreover have "xs ! i \<in> set (take (Suc i) xs)"
    using assms(2) by (metis in_set_conv_nth length_take lessI min_less_iff_conj nth_take)
  ultimately show ?thesis
    unfolding peak_so_far_def by (intro Max_eqI) auto
qed

text \<open>
  Claim C9. For a non-empty equity curve of positive values, calculateMaxDrawdown lies in
  [0, 1], equals the maximum over the indices \<open>i\<close> of (peak so far - value) / peak so far,
  the peak being the running maximum up to and including \<open>i\<close>, and is 0 for a
  non-decreasing curve.
\<close>

theorem C9_calculateMaxDrawdown:
  assumes "xs \<noteq> []" and "\<forall>x\<in>set xs. 0 < x"
  shows "0 \<le> calculateMaxDrawdown xs \<and> calculateMaxDrawdown xs \<le> 1
         \<and> calculateMaxDrawdown xs = Max (drawdown_at xs ` {..<length xs})
         \<and> (sorted xs \<longrightarrow> calculateMaxDrawdown xs = 0)"
proof -
  have eq: "calculateMaxDrawdown xs = Max (drawdown_at xs ` {..<length xs})"
    using assms by (rule calculateMaxDrawdown_eq)
  have ne: "drawdown_at xs ` {..<length xs} \<noteq> {}" using assms(1) by auto
  have fin: "finite (drawdown_at xs ` {..<length xs})" by simp
  have b: "\<forall>v\<in>drawdown_at xs ` {..<length xs}. 0 \<le> v \<and> v < 1"
    using drawdown_at_bounds(3,4) [OF _ assms(2)] by auto
  have "Max (drawdown_at xs ` {..<length xs}) \<in> drawdown_at xs ` {..<length xs}"
    using fin ne by (rule Max_in)
  with b have "0 \<le> Max (drawdown_at xs ` {..<length xs}) \<and> Max (drawdown_at xs ` {..<length xs}) < 1"
    by (rule bspec)
  then have rng: "0 \<le> calculateMaxDrawdown xs \<and> calculateMaxDrawdown xs \<le> 1"
    unfolding eq by simp
  have "calculateMaxDrawdown xs = 0" if "sorted xs"
  proof -
    have "\<forall>i<length xs. drawdown_at xs i = 0"
      using sorted_peak [OF that] by (simp add: drawdown_at_def)
    then have "drawdown_at xs ` {..<length xs} = {0}"
      using assms(1) by auto
    then show ?thesis unfolding eq by simp
  qed
  with rng eq show ?thesis by blast
qed

theorem C9_calculateMaxDrawdown_witness:
  "[100, 120, 90, 150::real] \<noteq> [] \<and> list_all (\<lambda>x. 0 < x) [100, 120, 90, 150::real]
   \<and> calculateMaxDrawdown [100, 120, 90, 150] = 1 / 4
   \<and> 0 \<le> calculateMaxDrawdown [100, 120, 90, 150] \<and> calculateMaxDrawdown [100, 120, 90, 150] \<le> 1
   \<and> calculateMaxDrawdown [100, 120, 90, 150]
       = Max (drawdown_at [100, 120, 90, 150] ` {..<length [100, 120, 90, 150::real]})
   \<and> sorted [100, 120, 150::real] \<and> calculateMaxDrawdown [100, 120, 150] = 0"
proof -
  have a: "calculateMaxDrawdown [100, 120, 90, 150] = 1 / 4"
    by (simp add: calculateMaxDrawdown_def drawdown_step_def Let_def)
  have b: "0 \<le> calculateMaxDrawdown [100, 120, 90, 150] \<and> calculateMaxDrawdown [100, 120, 90, 150] \<le> 1
     \<and> calculateMaxDrawdown [100, 120, 90, 150]
         = Max (drawdown_at [100, 120, 90, 150] ` {..<length [100, 120, 90, 150::real]})
     \<and> (sorted [100, 120, 90, 150::real] \<longrightarrow> calculateMaxDrawdown [100, 120, 90, 150] = 0)"
    by (rule C9_calculateMaxDrawdown) simp_all
  have c: "0 \<le> calculateMaxDrawdown [100, 120, 150] \<and> calculateMaxDrawdown [100, 120, 150] \<le> 1
     \<and> calculateMaxDrawdown [100, 120, 150]
         = Max (drawdown_at [100, 120, 150] ` {..<length [100, 120, 150::real]})
     \<and> (sorted [100, 120, 150::real] \<longrightarrow> calculateMaxDrawdown [100, 120, 150] = 0)"
    by (rule C9_calculateMaxDrawdown) simp_all
  have d: "sorted [100, 120, 150::real]" by simp
  from a b c d show ?thesis by simp
qed

section \<open>Simulation loop: trade log and invested total\<close>

lemma run_days_Suc:
  "run_days env params (Suc n) =
     simulate_day env params (determineCooldownPeriod (marketData params)) (run_days env params n) n"
  by (simp add: run_days_def)

lemma run_days_0: "run_days env params 0 = initial_ledger params (hd (marketData params))"
  by (simp add: run_days_def)

lemma run_days_invariant:
  assumes "P (initial_ledger params (hd (marketData params)))"
    and "\<And>st i. i < n \<Longrightarrow> P st \<Longrightarrow>
           P (simulate_day env params (determineCooldownPeriod (marketData params)) st i)"
  shows "P (run_days env params n)"
  using assms(2)
proof (induction n)
  case 0
  then show ?case using assms(1) by (simp add: run_days_0)
next
  case (Suc n)
  then show ?case by (simp add: run_days_Suc)
qed

lemma runBacktest_Inr:
  assumes "marketData params \<noteq> []"
  shows "\<exists>r. runBacktest env params = Inr r"
  using assms by (cases "marketData params") (simp_all add: runBacktest_def Let_def)

lemma runBacktest_fields:
  assumes "runBacktest env params = Inr r"
  shows "marketData params \<noteq> []"
    and "trades r = l_trades (final_ledger env params)"
    and "totalContributions r = l_totalContributions (final_ledger env params)"
    and "totalInvested r =
           (if \<not> lump_of params
            then l_totalInvested (final_ledger env params) + accumulatedCash (final_ledger env params)
            else l_totalInvested (final_ledger env params))"
    and "finalValue r = cash (final_ledger env params)
           + shares (final_ledger env params) * md_close (last (marketData params))
           + accumulatedCash (final_ledger env params)"
    and "debugInfo r = l_debugInfo (final_ledger env params)"
  using assms by (cases "marketData params"; auto simp: runBacktest_def Let_def)+

text \<open>The definitions a concrete run is evaluated with.\<close>

lemmas ledger_defs =
  final_ledger_def run_days_def simulate_day_def initial_ledger_def initial_debugInfo_def
  weekly_contribution_def invest_contribution_def deposit_contribution_def amountToInvest_def
  folds_accumulated_def skip_contribution_def count_contribution_def weekly_buy_def
  inCooldown_def sell_step_def shouldSell_def release_step_def lumpsum_step_def shouldBuy_def
  allocationMultiplier_def final_sweep_def variant_of_def contribution_of_def lump_of_def
  findClosestFearGreedData_def closest_scan_def closest_step_def isoDate_def
  isInDowntrend_def determineCooldownPeriod_def dateDiffs_def
  shouldInvestWeeklyAmount_def shouldInvestDouble_def
  default_env_def DEFAULT_FEAR_THRESHOLD_def DEFAULT_GREED_THRESHOLD_def
  EXTREME_FEAR_THRESHOLD_def EXTREME_GREED_THRESHOLD_def ALLOCATION_PERCENTAGE_def
  SELL_PERCENTAGE_def MIN_PROFIT_PERCENT_def TREND_MA_PERIOD_def DEFAULT_WEEKLY_CONTRIBUTION_def
  DAYS_IN_WEEK_def MS_PER_DAY_def day_def

subsection \<open>The trade log starts with a buy\<close>

lemma log_ok_initial: "log_ok (initial_ledger params d)"
  by (simp add: log_ok_def initial_ledger_def)

lemma log_ok_weekly_buy: "log_ok st \<Longrightarrow> log_ok (weekly_buy d dbl acc st)"
  by (cases "l_trades st") (auto simp: log_ok_def weekly_buy_def Let_def)

lemma log_ok_same:
  "l_trades st' = l_trades st \<Longrightarrow> lastBuyPrice st' = lastBuyPrice st \<Longrightarrow> log_ok st \<Longrightarrow> log_ok st'"
  by (simp add: log_ok_def)

lemma log_ok_invest: "log_ok st \<Longrightarrow> log_ok (invest_contribution params d fg st)"
  unfolding invest_contribution_def
  by (rule log_ok_weekly_buy) (simp add: log_ok_def deposit_contribution_def Let_def)

lemma log_ok_skip: "log_ok st \<Longrightarrow> log_ok (skip_contribution params st)"
  by (simp add: log_ok_def skip_contribution_def)

lemma log_ok_count: "log_ok st \<Longrightarrow> log_ok (count_contribution params d st)"
  by (simp add: log_ok_def count_contribution_def)

lemma log_ok_weekly_contribution:
  "log_ok st \<Longrightarrow> log_ok (weekly_contribution env params i d fg st)"
  unfolding weekly_contribution_def Let_def
  by (simp add: log_ok_invest log_ok_skip log_ok_count)

lemma log_ok_sell: "log_ok st \<Longrightarrow> log_ok (sell_step env params d fg st)"
  by (cases "l_trades st") (auto simp: log_ok_def sell_step_def Let_def split: option.splits)

lemma log_ok_release: "log_ok st \<Longrightarrow> log_ok (release_step params c d fg st)"
  by (cases "l_trades st") (auto simp: log_ok_def release_step_def Let_def)

lemma log_ok_lumpsum: "log_ok st \<Longrightarrow> log_ok (lumpsum_step env params c dt d fg st)"
  by (cases "l_trades st") (auto simp: log_ok_def lumpsum_step_def Let_def)

lemma log_ok_equity: "log_ok st \<Longrightarrow> log_ok (st\<lparr>equityCurve := e\<rparr>)"
  by (simp add: log_ok_def)

lemma log_ok_simulate_day: "log_ok st \<Longrightarrow> log_ok (simulate_day env params c st i)"
  unfolding simulate_day_def Let_def
  by (simp split: option.splits
      add: log_ok_lumpsum log_ok_release log_ok_sell log_ok_equity log_ok_weekly_contribution)

lemma log_ok_final_sweep: "log_ok st \<Longrightarrow> log_ok (final_sweep d st)"
  by (cases "l_trades st") (auto simp: log_ok_def final_sweep_def Let_def)

lemma log_ok_run_days: "log_ok (run_days env params n)"
  by (rule run_days_invariant [where P = log_ok]) (simp_all add: log_ok_initial log_ok_simulate_day)

lemma log_ok_final_ledger: "log_ok (final_ledger env params)"
  unfolding final_ledger_def by (rule log_ok_final_sweep) (rule log_ok_run_days)

text \<open>
  Claim C10. In the trade log of every run that returns, a non-empty log starts with a
  buy, and every sell has a buy before it in the log.
\<close>

theorem C10_sell_preceded_by_buy:
  assumes "runBacktest env params = Inr r"
  shows "(trades r \<noteq> [] \<longrightarrow> t_type (hd (trades r)) = buy)
         \<and> (\<forall>i<length (trades r). t_type (trades r ! i) = sell \<longrightarrow>
               (\<exists>j<i. t_type (trades r ! j) = buy))"
proof -
  have tr: "trades r = l_trades (final_ledger env params)"
    using assms by (rule runBacktest_fields)
  have first: "trades r \<noteq> [] \<longrightarrow> t_type (hd (trades r)) = buy"
    using log_ok_final_ledger [of env params] by (auto simp: log_ok_def tr)
  have "\<exists>j<i. t_type (trades r ! j) = buy"
    if "i < length (trades r)" and "t_type (trades r ! i) = sell" for i
  proof -
    from that(1) have ne: "trades r \<noteq> []" by auto
    with first have "t_type (trades r ! 0) = buy" by (simp add: hd_conv_nth)
    moreover from this that(2) have "0 < i" by (cases i) auto
    ultimately show ?thesis by blast
  qed
  with first show ?thesis by blast
qed


lemma c10_trades:
  "map t_type (l_trades (final_ledger default_env (c10_params Default))) = [buy, sell, buy]"
  by (simp add: c10_params_def ledger_defs Let_def upt_conv_Cons)

theorem C10_sell_preceded_by_buy_witness:
  "\<exists>r. runBacktest default_env (c10_params Default) = Inr r
       \<and> map t_type (trades r) = [buy, sell, buy]
       \<and> (trades r \<noteq> [] \<longrightarrow> t_type (hd (trades r)) = buy)
       \<and> (\<forall>i<length (trades r). t_type (trades r ! i) = sell \<longrightarrow>
               (\<exists>j<i. t_type (trades r ! j) = buy))"
proof -
  have "marketData (c10_params Default) \<noteq> []"
    by (simp add: c10_params_def)
  then obtain r where r: "runBacktest default_env (c10_params Default) = Inr r"
    using runBacktest_Inr by blast
  have "map t_type (trades r) = [buy, sell, buy]"
    using runBacktest_fields(2) [OF r] c10_trades by simp
  with r C10_sell_preceded_by_buy [OF r]
  have "runBacktest default_env (c10_params Default) = Inr r
       \<and> map t_type (trades r) = [buy, sell, buy]
       \<and> (trades r \<noteq> [] \<longrightarrow> t_type (hd (trades r)) = buy)
       \<and> (\<forall>i<length (trades r). t_type (trades r ! i) = sell \<longrightarrow>
               (\<exists>j<i. t_type (trades r ! j) = buy))"
    by simp
  then show ?thesis by (rule exI)
qed

subsection \<open>The extreme-fear-hold variant only buys\<close>

lemma only_buys_initial: "only_buys (initial_ledger params d)"
  by (simp add: only_buys_def initial_ledger_def)

lemma only_buys_weekly_buy: "only_buys st \<Longrightarrow> only_buys (weekly_buy d dbl acc st)"
  by (simp add: only_buys_def weekly_buy_def Let_def)

lemma only_buys_weekly_contribution:
  "only_buys st \<Longrightarrow> only_buys (weekly_contribution env params i d fg st)"
proof -
  assume a: "only_buys st"
  have "only_buys (deposit_contribution params fg (count_contribution params d st))"
    using a by (simp add: only_buys_def deposit_contribution_def count_contribution_def Let_def)
  then have "only_buys (invest_contribution params d fg (count_contribution params d st))"
    unfolding invest_contribution_def by (rule only_buys_weekly_buy)
  moreover have "only_buys (skip_contribution params (count_contribution params d st))"
    using a by (simp add: only_buys_def skip_contribution_def count_contribution_def)
  ultimately show ?thesis
    using a by (simp add: weekly_contribution_def Let_def)
qed

lemma sell_step_hold:
  "variant_of params = ExtremeFearHold \<Longrightarrow> sell_step env params d fg st = st"
  by (simp add: sell_step_def split: option.splits)

lemma only_buys_release: "only_buys st \<Longrightarrow> only_buys (release_step params c d fg st)"
  by (simp add: only_buys_def release_step_def Let_def)

lemma only_buys_lumpsum: "only_buys st \<Longrightarrow> only_buys (lumpsum_step env params c dt d fg st)"
  by (simp add: only_buys_def lumpsum_step_def Let_def)

lemma only_buys_equity: "only_buys st \<Longrightarrow> only_buys (st\<lparr>equityCurve := e\<rparr>)"
  by (simp add: only_buys_def)

lemma only_buys_simulate_day:
  "variant_of params = ExtremeFearHold \<Longrightarrow> only_buys st \<Longrightarrow> only_buys (simulate_day env params c st i)"
  unfolding simulate_day_def Let_def
  by (simp split: option.splits
      add: sell_step_hold only_buys_lumpsum only_buys_release only_buys_equity
           only_buys_weekly_contribution)

lemma only_buys_final_sweep: "only_buys st \<Longrightarrow> only_buys (final_sweep d st)"
  by (simp add: only_buys_def final_sweep_def Let_def)

lemma only_buys_final_ledger:
  assumes "variant_of params = ExtremeFearHold"
  shows "only_buys (final_ledger env params)"
proof -
  have "only_buys (run_days env params (length (marketData params)))"
    by (rule run_days_invariant [where P = only_buys])
       (simp_all add: only_buys_initial only_buys_simulate_day assms)
  then show ?thesis
    unfolding final_ledger_def by (rule only_buys_final_sweep)
qed

text \<open>
  Claim C6. A run with the extreme-fear-hold variant returns a trade log without any sell,
  whatever the prices, the sentiment, the capital and the mode.
\<close>

theorem C6_extreme_fear_hold_never_sells:
  assumes "runBacktest env params = Inr r"
    and "strategyVariant params = Some ExtremeFearHold"
  shows "\<forall>t\<in>set (trades r). t_type t \<noteq> sell"
proof -
  have "variant_of params = ExtremeFearHold"
    using assms(2) by (simp add: variant_of_def)
  then have "only_buys (final_ledger env params)"
    by (rule only_buys_final_ledger)
  moreover have "trades r = l_trades (final_ledger env params)"
    using assms(1) by (rule runBacktest_fields)
  ultimately show ?thesis
    by (auto simp: only_buys_def list_all_iff)
qed

lemma c10_hold_trades:
  "map t_type (l_trades (final_ledger default_env (c10_params ExtremeFearHold))) = [buy, buy]"
  by (simp add: c10_params_def ledger_defs Let_def upt_conv_Cons)

theorem C6_extreme_fear_hold_never_sells_witness:
  "strategyVariant (c10_params ExtremeFearHold) = Some ExtremeFearHold
   \<and> (\<exists>r. runBacktest default_env (c10_params ExtremeFearHold) = Inr r
          \<and> map t_type (trades r) = [buy, buy]
          \<and> (\<forall>t\<in>set (trades r). t_type t \<noteq> sell))"
proof -
  have v: "strategyVariant (c10_params ExtremeFearHold) = Some ExtremeFearHold"
    by (simp add: c10_params_def)
  have "marketData (c10_params ExtremeFearHold) \<noteq> []"
    by (simp add: c10_params_def)
  then obtain r where r: "runBacktest default_env (c10_params ExtremeFearHold) = Inr r"
    using runBacktest_Inr by blast
  have "map t_type (trades r) = [buy, buy]"
    using runBacktest_fields(2) [OF r] c10_hold_trades by simp
  moreover have "\<forall>t\<in>set (trades r). t_type t \<noteq> sell"
    using r v by (rule C6_extreme_fear_hold_never_sells)
  ultimately have "runBacktest default_env (c10_params ExtremeFearHold) = Inr r
          \<and> map t_type (trades r) = [buy, buy]
          \<and> (\<forall>t\<in>set (trades r). t_type t \<noteq> sell)"
    using r by simp
  then have "\<exists>r. runBacktest default_env (c10_params ExtremeFearHold) = Inr r
          \<and> map t_type (trades r) = [buy, buy]
          \<and> (\<forall>t\<in>set (trades r). t_type t \<noteq> sell)"
    by (rule exI)
  with v show ?thesis by (rule conjI)
qed

subsection \<open>The invested total\<close>

lemma books_weekly_buy [simp]:
  "l_totalInvested (weekly_buy d dbl acc st) = l_totalInvested st"
  "accumulatedCash (weekly_buy d dbl acc st) = accumulatedCash st"
  "l_totalContributions (weekly_buy d dbl acc st) = l_totalContributions st"
  by (simp_all add: weekly_buy_def Let_def)

lemma invested_ok_initial: "invested_ok params (initial_ledger params d)"
  by (simp add: invested_ok_def initial_ledger_def)

lemma invested_ok_weekly_contribution:
  "invested_ok params st \<Longrightarrow> invested_ok params (weekly_contribution env params i d fg st)"
  by (auto simp: invested_ok_def weekly_contribution_def invest_contribution_def
      deposit_contribution_def skip_contribution_def count_contribution_def Let_def algebra_simps)

lemma invested_ok_sell: "invested_ok params st \<Longrightarrow> invested_ok params (sell_step env params d fg st)"
  by (auto simp: invested_ok_def sell_step_def Let_def split: option.splits)

lemma invested_ok_release: "invested_ok params st \<Longrightarrow> invested_ok params (release_step params c d fg st)"
  by (auto simp: invested_ok_def release_step_def Let_def)

lemma invested_ok_lumpsum:
  "invested_ok params st \<Longrightarrow> invested_ok params (lumpsum_step env params c dt d fg st)"
  by (auto simp: invested_ok_def lumpsum_step_def Let_def)

lemma invested_ok_equity: "invested_ok params st \<Longrightarrow> invested_ok params (st\<lparr>equityCurve := e\<rparr>)"
  by (simp add: invested_ok_def)

lemma invested_ok_simulate_day:
  "invested_ok params st \<Longrightarrow> invested_ok params (simulate_day env params c st i)"
  unfolding simulate_day_def Let_def
  by (simp split: option.splits
      add: invested_ok_sell invested_ok_lumpsum invested_ok_release invested_ok_equity
           invested_ok_weekly_contribution)

lemma invested_ok_final_sweep: "invested_ok params st \<Longrightarrow> invested_ok params (final_sweep d st)"
  by (auto simp: invested_ok_def final_sweep_def Let_def)

lemma invested_ok_final_ledger: "invested_ok params (final_ledger env params)"
proof -
  have "invested_ok params (run_days env params (length (marketData params)))"
    by (rule run_days_invariant [where P = "invested_ok params"])
       (simp_all add: invested_ok_initial invested_ok_simulate_day)
  then show ?thesis
    unfolding final_ledger_def by (rule invested_ok_final_sweep)
qed

text \<open>
  Claim C2, amended: the returned totalInvested is the lump-sum capital (in lump-sum mode)
  plus the regular contribution amount once for every contribution event, whether that
  contribution was invested, deferred and released later, or still accumulated at the
  end. The extra amount of a doubled contribution goes into the cash but not into
  totalInvested.
\<close>

theorem C2_totalInvested:
  assumes "runBacktest env params = Inr r"
  shows "totalInvested r
           = (if lump_of params then initialCapital params else 0)
             + contribution_of params * real (totalContributions r)"
  using invested_ok_final_ledger [of params env]
    runBacktest_fields(3,4) [OF assms]
  by (auto simp: invested_ok_def)

lemma c2_run:
  "l_totalInvested (final_ledger default_env c2_params) = 500"
  "accumulatedCash (final_ledger default_env c2_params) = 0"
  "l_totalContributions (final_ledger default_env c2_params) = 1"
  "l_debugInfo (final_ledger default_env c2_params) =
     \<lparr>executedBuys = 1, executedSells = 0, weeklyContributionsSkipped = 0,
      weeklyContributionsInvested = 1, doubleInvestments = 1, cashAccumulated = 0,
      accumulatedCashInvested = 0\<rparr>"
  "map t_value (l_trades (final_ledger default_env c2_params)) = [1000]"
  by (simp_all add: c2_params_def ledger_defs Let_def upt_conv_Cons)

text \<open>
  Claim C2, as the claim states it, fails: in periodic mode with the default contribution
  of 500, a contribution made in extreme fear is doubled, so 1000 enters the cash and is
  spent on one buy of value 1000, while totalInvested is 500.
\<close>

theorem C2_doubled_contribution_counterexample:
  "map_sum id totalInvested (runBacktest default_env c2_params) = Inr 500
   \<and> map_sum id (capital_injected c2_params \<circ> debugInfo) (runBacktest default_env c2_params) = Inr 1000
   \<and> map_sum id (map t_value \<circ> trades) (runBacktest default_env c2_params) = Inr [1000]"
proof -
  have "marketData c2_params \<noteq> []"
    by (simp add: c2_params_def)
  then obtain r where r: "runBacktest default_env c2_params = Inr r"
    using runBacktest_Inr by blast
  have lump: "\<not> lump_of c2_params" and wc: "contribution_of c2_params = 500"
    by (simp_all add: c2_params_def lump_of_def contribution_of_def DEFAULT_WEEKLY_CONTRIBUTION_def)
  have "totalInvested r = 500"
    using runBacktest_fields(4) [OF r] lump c2_run by simp
  moreover have "capital_injected c2_params (debugInfo r) = 1000"
    using runBacktest_fields(6) [OF r] lump wc c2_run by (simp add: capital_injected_def)
  moreover have "map t_value (trades r) = [1000]"
    using runBacktest_fields(2) [OF r] c2_run by simp
  ultimately show ?thesis
    using r by simp
qed

theorem C2_totalInvested_witness:
  "\<exists>r. runBacktest default_env c2_params = Inr r
       \<and> totalContributions r = 1
       \<and> totalInvested r = (if lump_of c2_params then initialCapital c2_params else 0)
             + contribution_of c2_params * real (totalContributions r)"
proof -
  have "marketData c2_params \<noteq> []"
    by (simp add: c2_params_def)
  then obtain r where r: "runBacktest default_env c2_params = Inr r"
    using runBacktest_Inr by blast
  have "totalContributions r = 1"
    using runBacktest_fields(3) [OF r] c2_run by simp
  with r C2_totalInvested [OF r]
  have "runBacktest default_env c2_params = Inr r
       \<and> totalContributions r = 1
       \<and> totalInvested r = (if lump_of c2_params then initialCapital c2_params else 0)
             + contribution_of c2_params * real (totalContributions r)"
    by simp
  then show ?thesis by (rule exI)
qed

section \<open>Simulation loop: cash and shares stay non-negative\<close>

lemma solvent_initial:
  "(lump_of params \<Longrightarrow> 0 \<le> initialCapital params) \<Longrightarrow> solvent (initial_ledger params d)"
  by (simp add: solvent_def initial_ledger_def)

lemma solvent_weekly_buy:
  "0 < md_close d \<Longrightarrow> solvent st \<Longrightarrow> solvent (weekly_buy d dbl acc st)"
  by (simp add: solvent_def weekly_buy_def Let_def)

lemma amountToInvest_nonneg:
  "0 \<le> contribution_of params \<Longrightarrow> 0 \<le> amountToInvest params fg st"
  by (auto simp: amountToInvest_def folds_accumulated_def Let_def split: option.splits)

lemma solvent_deposit:
  "0 \<le> contribution_of params \<Longrightarrow> solvent st \<Longrightarrow> solvent (deposit_contribution params fg st)"
  using amountToInvest_nonneg [of params fg st]
  by (simp add: solvent_def deposit_contribution_def Let_def)

lemma solvent_weekly_contribution:
  assumes "0 < md_close d" and "0 \<le> contribution_of params" and "solvent st"
  shows "solvent (weekly_contribution env params i d fg st)"
proof -
  have c: "solvent (count_contribution params d st)"
    using assms(3) by (simp add: solvent_def count_contribution_def)
  then have "solvent (deposit_contribution params fg (count_contribution params d st))"
    using assms(2) by (simp add: solvent_deposit)
  then have "solvent (invest_contribution params d fg (count_contribution params d st))"
    unfolding invest_contribution_def using assms(1) by (simp add: solvent_weekly_buy)
  moreover have "solvent (skip_contribution params (count_contribution params d st))"
    using c by (simp add: solvent_def skip_contribution_def)
  ultimately show ?thesis
    using assms(3) by (simp add: weekly_contribution_def Let_def)
qed

lemma solvent_sell:
  assumes "0 < md_close d" and "solvent st"
  shows "solvent (sell_step env params d fg st)"
proof -
  have "0 \<le> shares st - shares st * SELL_PERCENTAGE"
    using assms(2) by (simp add: solvent_def SELL_PERCENTAGE_def)
  moreover have "0 \<le> cash st + shares st * SELL_PERCENTAGE * md_close d"
    using assms by (simp add: solvent_def SELL_PERCENTAGE_def)
  ultimately show ?thesis
    using assms(2) by (simp add: solvent_def sell_step_def Let_def split: option.splits)
qed

lemma solvent_release:
  "0 < md_close d \<Longrightarrow> solvent st \<Longrightarrow> solvent (release_step params c d fg st)"
  by (simp add: solvent_def release_step_def Let_def)

lemma allocationMultiplier_bounds:
  assumes "0 < FEAR_THRESHOLD env" and "0 \<le> v"
  shows "0 < allocationMultiplier env v" and "allocationMultiplier env v < 1"
proof -
  define f where "f = max 0 (FEAR_THRESHOLD env - v) / FEAR_THRESHOLD env"
  have "0 \<le> f" using assms(1) by (simp add: f_def)
  moreover have "f \<le> 1" using assms by (simp add: f_def)
  ultimately show "0 < allocationMultiplier env v" and "allocationMultiplier env v < 1"
    by (simp_all add: allocationMultiplier_def f_def [symmetric] ALLOCATION_PERCENTAGE_def Let_def)
qed

lemma solvent_lumpsum:
  assumes "0 < md_close d" and "0 < FEAR_THRESHOLD env" and "0 \<le> fg_value fg" and "solvent st"
  shows "solvent (lumpsum_step env params c dt d fg st)"
proof -
  let ?a = "allocationMultiplier env (fg_value fg)"
  have a: "0 < ?a" "?a < 1"
    using assms(2,3) by (rule allocationMultiplier_bounds)+
  have "0 \<le> cash st * (1 - ?a)"
    using assms(4) a by (simp add: solvent_def)
  then have "0 \<le> cash st - cash st * ?a"
    by (simp add: algebra_simps)
  moreover have "0 \<le> shares st + cash st * ?a / md_close d"
    using assms(1,4) a by (simp add: solvent_def)
  ultimately show ?thesis
    using assms(1,4) by (simp add: solvent_def lumpsum_step_def Let_def)
qed

lemma solvent_equity: "solvent st \<Longrightarrow> solvent (st\<lparr>equityCurve := e\<rparr>)"
  by (simp add: solvent_def)

lemma solvent_simulate_day:
  assumes "0 < md_close (marketData params ! i)"
    and "\<forall>s\<in>set (fearGreedData params). 0 \<le> fg_value s"
    and "0 < FEAR_THRESHOLD env" and "0 \<le> contribution_of params" and "solvent st"
  shows "solvent (simulate_day env params c st i)"
proof -
  have "0 \<le> fg_value fg"
    if "findClosestFearGreedData (md_date (marketData params ! i)) (fearGreedData params) = Some fg"
    for fg using find_sound [OF that] assms(2) by simp
  then show ?thesis
    unfolding simulate_day_def Let_def using assms(1,3,4,5)
    by (simp split: option.splits
        add: solvent_lumpsum solvent_release solvent_sell solvent_equity solvent_weekly_contribution)
qed

lemma solvent_final_sweep:
  "0 < md_close d \<Longrightarrow> solvent st \<Longrightarrow> solvent (final_sweep d st)"
  by (simp add: solvent_def final_sweep_def Let_def)

lemma solvent_run_days:
  assumes "\<forall>d\<in>set (marketData params). 0 < md_close d"
    and "\<forall>s\<in>set (fearGreedData params). 0 \<le> fg_value s"
    and "0 < FEAR_THRESHOLD env"
    and "lump_of params \<Longrightarrow> 0 \<le> initialCapital params"
    and "0 \<le> contribution_of params"
    and "n \<le> length (marketData params)"
  shows "solvent (run_days env params n)"
proof (rule run_days_invariant [where P = solvent])
  show "solvent (initial_ledger params (hd (marketData params)))"
    using assms(4) by (rule solvent_initial)
next
  fix st i assume "i < n" and st: "solvent st"
  then have "0 < md_close (marketData params ! i)"
    using assms(1,6) by simp
  then show "solvent (simulate_day env params (determineCooldownPeriod (marketData params)) st i)"
    using assms(2,3,5) st by (rule solvent_simulate_day)
qed

text \<open>
  Claim C3, amended: with positive prices, sentiment values that are not negative, a
  positive fear threshold, and an initial capital and a contribution amount that are not
  negative, cash and shares are non-negative after every simulated day and after the
  final cash sweep (exact arithmetic).
\<close>

theorem C3_cash_and_shares_nonnegative:
  assumes "marketData params \<noteq> []"
    and "\<forall>d\<in>set (marketData params). 0 < md_close d"
    and "\<forall>s\<in>set (fearGreedData params). 0 \<le> fg_value s"
    and "0 < FEAR_THRESHOLD env"
    and "0 \<le> initialCapital params"
    and "0 \<le> contribution_of params"
  shows "(\<forall>n\<le>length (marketData params).
            0 \<le> cash (run_days env params n) \<and> 0 \<le> shares (run_days env params n))
         \<and> 0 \<le> cash (final_ledger env params) \<and> 0 \<le> shares (final_ledger env params)"
proof -
  have days: "solvent (run_days env params n)" if "n \<le> length (marketData params)" for n
    using assms(2,3,4) _ assms(6) that by (rule solvent_run_days) (rule assms(5))
  have "0 < md_close (last (marketData params))"
    using assms(1,2) by simp
  then have "solvent (final_ledger env params)"
    unfolding final_ledger_def using days [OF order_refl] by (rule solvent_final_sweep)
  with days show ?thesis by (simp add: solvent_def)
qed


text \<open>
  Claim C3, as the claim states it for every parameter choice, fails: in lump-sum mode
  with initial capital -100 and one price point at 100, the cash is -100 after the day
  and after the sweep, which buys only with positive cash.
\<close>

theorem C3_negative_capital_counterexample:
  "map md_close (marketData c3_params) = [100]
   \<and> cash (run_days default_env c3_params 1) = - 100
   \<and> cash (final_ledger default_env c3_params) = - 100"
  by (simp add: c3_params_def ledger_defs Let_def upt_conv_Cons)

theorem C3_cash_and_shares_nonnegative_witness:
  "marketData (c10_params Default) \<noteq> []
   \<and> list_all (\<lambda>d. 0 < md_close d) (marketData (c10_params Default))
   \<and> list_all (\<lambda>s. 0 \<le> fg_value s) (fearGreedData (c10_params Default))
   \<and> 0 < FEAR_THRESHOLD default_env
   \<and> 0 \<le> initialCapital (c10_params Default)
   \<and> 0 \<le> contribution_of (c10_params Default)
   \<and> list_all (\<lambda>n. 0 \<le> cash (run_days default_env (c10_params Default) n)
                    \<and> 0 \<le> shares (run_days default_env (c10_params Default) n)) [0, 1, 2]
   \<and> 0 \<le> cash (final_ledger default_env (c10_params Default))
   \<and> 0 \<le> shares (final_ledger default_env (c10_params Default))"
proof -
  have h: "marketData (c10_params Default) \<noteq> []"
    "\<forall>d\<in>set (marketData (c10_params Default)). 0 < md_close d"
    "\<forall>s\<in>set (fearGreedData (c10_params Default)). 0 \<le> fg_value s"
    "0 < FEAR_THRESHOLD default_env"
    "0 \<le> initialCapital (c10_params Default)"
    "0 \<le> contribution_of (c10_params Default)"
    by (simp_all add: c10_params_def default_env_def DEFAULT_FEAR_THRESHOLD_def
        contribution_of_def DEFAULT_WEEKLY_CONTRIBUTION_def)
  have len: "length (marketData (c10_params Default)) = 2"
    by (simp add: c10_params_def)
  from C3_cash_and_shares_nonnegative [OF h] len h show ?thesis
    by (simp add: list_all_iff)
qed

section \<open>Simulation loop: a single price point\<close>

lemmas single_defs =
  final_ledger_def run_days_def simulate_day_def weekly_contribution_def initial_ledger_def
  initial_debugInfo_def inCooldown_def sell_step_def release_step_def lumpsum_step_def
  final_sweep_def isInDowntrend_def TREND_MA_PERIOD_def

lemma single_point_no_buy:
  assumes "marketData params = [pt]" and "lump_of params"
    and "0 < md_close pt" and "0 < initialCapital params"
    and "\<not> lump_buy_today env params pt"
  shows "l_trades (final_ledger env params) =
           [\<lparr>t_date = md_date pt, t_type = buy, t_price = md_close pt,
             t_shares = initialCapital params / md_close pt,
             t_value = initialCapital params, t_reason = FinalCashAllocation\<rparr>]"
    and "cash (final_ledger env params) = 0"
    and "shares (final_ledger env params) = initialCapital params / md_close pt"
    and "accumulatedCash (final_ledger env params) = 0"
  using assms
  by (auto simp: single_defs lump_buy_today_def Let_def split: option.splits)

lemma single_point_buy:
  assumes "marketData params = [pt]" and "lump_of params"
    and "0 < md_close pt" and "0 < initialCapital params"
    and "findClosestFearGreedData (md_date pt) (fearGreedData params) = Some fg"
    and "shouldBuy env (variant_of params) (fg_value fg)"
    and "0 < allocationMultiplier env (fg_value fg)"
    and "allocationMultiplier env (fg_value fg) < 1"
  shows "l_trades (final_ledger env params) =
           [\<lparr>t_date = md_date pt, t_type = buy, t_price = md_close pt,
             t_shares = initialCapital params * allocationMultiplier env (fg_value fg) / md_close pt,
             t_value = initialCapital params * allocationMultiplier env (fg_value fg),
             t_reason = FearGreedIndexBuy False\<rparr>,
            \<lparr>t_date = md_date pt, t_type = buy, t_price = md_close pt,
             t_shares = (initialCapital params
                          - initialCapital params * allocationMultiplier env (fg_value fg)) / md_close pt,
             t_value = initialCapital params
                          - initialCapital params * allocationMultiplier env (fg_value fg),
             t_reason = FinalCashAllocation\<rparr>]"
    and "cash (final_ledger env params) = 0"
    and "shares (final_ledger env params) = initialCapital params / md_close pt"
    and "accumulatedCash (final_ledger env params) = 0"
proof -
  let ?a = "allocationMultiplier env (fg_value fg)"
  have pos: "0 < initialCapital params * ?a"
    using assms(4,7) by simp
  have less: "initialCapital params * ?a < initialCapital params"
    using assms(4,8) by simp
  have sh: "initialCapital params * ?a / md_close pt
              + (initialCapital params - initialCapital params * ?a) / md_close pt
            = initialCapital params / md_close pt"
    by (simp add: diff_divide_distrib)
  show "l_trades (final_ledger env params) =
           [\<lparr>t_date = md_date pt, t_type = buy, t_price = md_close pt,
             t_shares = initialCapital params * ?a / md_close pt,
             t_value = initialCapital params * ?a,
             t_reason = FearGreedIndexBuy False\<rparr>,
            \<lparr>t_date = md_date pt, t_type = buy, t_price = md_close pt,
             t_shares = (initialCapital params - initialCapital params * ?a) / md_close pt,
             t_value = initialCapital params - initialCapital params * ?a,
             t_reason = FinalCashAllocation\<rparr>]"
    and "cash (final_ledger env params) = 0"
    and "shares (final_ledger env params) = initialCapital params / md_close pt"
    and "accumulatedCash (final_ledger env params) = 0"
    using assms(1-6) pos less sh
    by (simp_all add: single_defs Let_def)
qed


text \<open>
  Claim C8, amended: on a single price point in lump-sum mode, with a positive price, a
  positive initial capital, a positive fear threshold and sentiment values that are not
  negative, the run returns, finalValue equals initialCapital, every trade is a buy at
  that point's price, the trade values add up to initialCapital, and there are two
  trades when the day's sentiment meets the variant's buy rule (the sentiment-scaled
  lump-sum buy, then the final sweep of the rest) and one trade otherwise.
\<close>

theorem C8_single_point_lump_sum:
  assumes "marketData params = [pt]" and "useLumpSum params = Some True"
    and "0 < md_close pt" and "0 < initialCapital params"
    and "0 < FEAR_THRESHOLD env" and "\<forall>s\<in>set (fearGreedData params). 0 \<le> fg_value s"
  shows "\<exists>r. runBacktest env params = Inr r
           \<and> finalValue r = initialCapital params
           \<and> list_all (\<lambda>t. t_type t = buy \<and> t_price t = md_close pt) (trades r)
           \<and> sum_list (map t_value (trades r)) = initialCapital params
           \<and> length (trades r) = (if lump_buy_today env params pt then 2 else 1)"
proof -
  have lump: "lump_of params"
    using assms(2) by (simp add: lump_of_def)
  have "marketData params \<noteq> []"
    using assms(1) by simp
  then obtain r where r: "runBacktest env params = Inr r"
    using runBacktest_Inr by blast
  have tr: "trades r = l_trades (final_ledger env params)"
    using r by (rule runBacktest_fields)
  have fv: "finalValue r = cash (final_ledger env params)
              + shares (final_ledger env params) * md_close pt
              + accumulatedCash (final_ledger env params)"
    using runBacktest_fields(5) [OF r] assms(1) by simp
  have "finalValue r = initialCapital params
        \<and> list_all (\<lambda>t. t_type t = buy \<and> t_price t = md_close pt) (trades r)
        \<and> sum_list (map t_value (trades r)) = initialCapital params
        \<and> length (trades r) = (if lump_buy_today env params pt then 2 else 1)"
  proof (cases "lump_buy_today env params pt")
    case False
    from single_point_no_buy [OF assms(1) lump assms(3,4) False] assms(3)
    show ?thesis unfolding fv tr by (simp add: False)
  next
    case True
    then obtain fg where
      fg: "findClosestFearGreedData (md_date pt) (fearGreedData params) = Some fg"
      and sb: "shouldBuy env (variant_of params) (fg_value fg)"
      by (auto simp: lump_buy_today_def split: option.splits)
    have "0 \<le> fg_value fg"
      using find_sound [OF fg] assms(6) by simp
    with assms(5) have "0 < allocationMultiplier env (fg_value fg)"
      and "allocationMultiplier env (fg_value fg) < 1"
      by (rule allocationMultiplier_bounds)+
    from single_point_buy [OF assms(1) lump assms(3,4) fg sb this] assms(3)
    show ?thesis unfolding fv tr by (simp add: True)
  qed
  with r show ?thesis by blast
qed

lemma c8_run:
  "map t_value (l_trades (final_ledger default_env c8_params)) = [625, 375]"
  by (simp add: c8_params_def ledger_defs Let_def upt_conv_Cons)

text \<open>
  Claim C8, as the claim states it for any sentiment series, fails: with sentiment 10 on
  the day, capital 1000 and price 100, the lump-sum buy spends 62.5% of the cash and the
  final sweep the rest, so the log has two buys, of values 625 and 375.
\<close>

theorem C8_two_trades_counterexample:
  "map_sum id (map t_value \<circ> trades) (runBacktest default_env c8_params) = Inr [625, 375]"
proof -
  have "marketData c8_params \<noteq> []"
    by (simp add: c8_params_def)
  then obtain r where r: "runBacktest default_env c8_params = Inr r"
    using runBacktest_Inr by blast
  then show ?thesis
    using runBacktest_fields(2) [OF r] c8_run by simp
qed

theorem C8_single_point_lump_sum_witness:
  "marketData c8_params = [\<lparr>md_date = day 0, md_close = 100\<rparr>]
   \<and> useLumpSum c8_params = Some True
   \<and> 0 < md_close \<lparr>md_date = day 0, md_close = 100\<rparr>
   \<and> 0 < initialCapital c8_params
   \<and> 0 < FEAR_THRESHOLD default_env
   \<and> list_all (\<lambda>s. 0 \<le> fg_value s) (fearGreedData c8_params)
   \<and> (\<exists>r. runBacktest default_env c8_params = Inr r
           \<and> finalValue r = initialCapital c8_params
           \<and> list_all (\<lambda>t. t_type t = buy \<and> t_price t = md_close \<lparr>md_date = day 0, md_close = 100\<rparr>) (trades r)
           \<and> sum_list (map t_value (trades r)) = initialCapital c8_params
           \<and> length (trades r)
               = (if lump_buy_today default_env c8_params \<lparr>md_date = day 0, md_close = 100\<rparr> then 2 else 1))"
proof -
  have h: "marketData c8_params = [\<lparr>md_date = day 0, md_close = 100\<rparr>]"
    "useLumpSum c8_params = Some True"
    "0 < md_close \<lparr>md_date = day 0, md_close = 100\<rparr>"
    "0 < initialCapital c8_params"
    "0 < FEAR_THRESHOLD default_env"
    "\<forall>s\<in>set (fearGreedData c8_params). 0 \<le> fg_value s"
    by (simp_all add: c8_params_def default_env_def DEFAULT_FEAR_THRESHOLD_def)
  from C8_single_point_lump_sum [OF h] h show ?thesis
    by (simp add: list_all_iff)
qed

text \<open>
  Claim C4. The claim says a zero-duration series yields a guarded sentinel. The code
  divides without a guard: on a single price point in lump-sum mode (capital 1000, price
  100, no sentiment data) the total return is 0, the year fraction is 0, its inverse is
  Infinity, and Math.pow(1, Infinity) - 1 is NaN, which is returned as annualizedReturn.
\<close>

theorem C4_annualized_return_unguarded:
  "map_sum id annualizedReturn (runBacktest default_env c4_params) = Inr NaN"
  by (simp add: runBacktest_def c4_params_def ledger_defs js_div_def Let_def upt_conv_Cons)

end
